theory Spec2Isabelle
  imports Main "HOL-Library.Word"
begin

section \<open>Types, values and errors of the Go program\<close>

text \<open>
  The binding engine works on Go types and values through the \<^verbatim>\<open>reflect\<close> package.
  \<open>gtype\<close> is the part of \<^verbatim>\<open>reflect.Type\<close> the engine looks at; a struct type carries
  its fields as \<^verbatim>\<open>reflect.StructField\<close> does (name, package path, type, tag).
  \<open>ErrorImplT\<close> stands for any concrete type that implements \<^verbatim>\<open>error\<close>, \<open>HandleT\<close>
  for a concrete type that implements \<^verbatim>\<open>DBResource\<close> (\<^verbatim>\<open>*sql.DB\<close>, \<^verbatim>\<open>*sql.Tx\<close>).
  A struct tag is held as its key/value pairs in textual order.
\<close>

type_synonym int64 = "64 word"

datatype gtype =
    Int64T
  | StringT
  | ErrorT
  | ErrorImplT
  | DBResourceT
  | HandleT
  | StructT string "StructField list"
  | PointerT gtype
  | SliceT gtype
  | FuncT "gtype list" "gtype list"
and StructField =
    StructField (Name: string) (PkgPath: string) (Type: gtype) (Tag: "(string \<times> string) list")

datatype kind =
    reflect_Int64 | reflect_String | reflect_Interface | reflect_Struct
  | reflect_Pointer | reflect_Slice | reflect_Func

fun Kind :: "gtype \<Rightarrow> kind" where
  "Kind Int64T = reflect_Int64"
| "Kind StringT = reflect_String"
| "Kind ErrorT = reflect_Interface"
| "Kind ErrorImplT = reflect_Pointer"
| "Kind DBResourceT = reflect_Interface"
| "Kind HandleT = reflect_Pointer"
| "Kind (StructT n fs) = reflect_Struct"
| "Kind (PointerT t) = reflect_Pointer"
| "Kind (SliceT t) = reflect_Slice"
| "Kind (FuncT ins outs) = reflect_Func"

text \<open>\<^verbatim>\<open>field.IsExported()\<close>: the package path of an exported field is empty.\<close>

definition IsExported :: "StructField \<Rightarrow> bool" where
  "IsExported f = (PkgPath f = [])"

text \<open>\<^verbatim>\<open>field.Tag.Get(key)\<close>: the value of the first pair with that key, the empty
  string when there is none.\<close>

fun Tag_Get :: "(string \<times> string) list \<Rightarrow> string \<Rightarrow> string" where
  "Tag_Get [] key = []"
| "Tag_Get ((k, v) # rest) key = (if k = key then v else Tag_Get rest key)"

text \<open>
  Errors. \<open>ErrorString\<close> is an error made by \<^verbatim>\<open>fmt.Errorf\<close> from strings only;
  the two messages that print a type with \<^verbatim>\<open>%v\<close> keep the type.
  \<open>WrapError\<close> is an error wrapping another one (\<^verbatim>\<open>%w\<close>), \<open>JoinError\<close> the result
  of \<^verbatim>\<open>errors.Join\<close> on two errors.
\<close>

datatype error =
    ErrorString string
  | ErrMustBePointerToStruct gtype
  | ErrUnsupportedReturnType gtype
  | ErrNoRows
  | ContextCanceled
  | WrapError string error
  | JoinError error error

fun errors_Is :: "error \<Rightarrow> error \<Rightarrow> bool" where
  "errors_Is (WrapError m e) target = (WrapError m e = target \<or> errors_Is e target)"
| "errors_Is (JoinError a b) target =
     (JoinError a b = target \<or> errors_Is a target \<or> errors_Is b target)"
| "errors_Is e target = (e = target)"

datatype panic =
    PanicError error
  | PanicNotAssignable gtype gtype
  | PanicString string

datatype 'a outcome = Returns 'a | Panics panic

text \<open>
  A connection or transaction handle is identified by its address, \<open>0\<close> the nil pointer.
  The context given to \<^verbatim>\<open>Bind\<close> is passed to the driver as it is.
\<close>

type_synonym resource = nat

datatype ctx = Background | WithCancel nat

text \<open>
  The six closures \<^verbatim>\<open>runner\<close> can return, with the variables they capture:
  the field's function type, \<^verbatim>\<open>singleSelection\<close>, the resolved query, and
  \<^verbatim>\<open>ctx\<close>, \<^verbatim>\<open>handle\<close> and \<^verbatim>\<open>lastInsertIDSupport\<close> of \<^verbatim>\<open>Bind\<close>.
\<close>

datatype convention =
    ExecNone | ExecError | ExecIdAffected | ExecIdAffectedError
  | QueryValue | QueryValueError

datatype closure =
  Closure (conv: convention) (ctyp: gtype) (csingle: bool) (cquery: string)
          (cctx: ctx) (chandle: resource) (clastInsertIDSupport: bool)

datatype gvalue =
    Int64V int64
  | StringV string
  | StructV gtype "gvalue list"
  | NilV gtype
  | PtrV gtype gvalue
  | SliceV gtype "gvalue list"
  | ErrV error
  | ResV resource
  | FuncV gtype closure

text \<open>\<^verbatim>\<open>reflect.Zero(t)\<close>. Every value of the handle type is a \<open>ResV\<close>.\<close>

primrec reflect_Zero :: "gtype \<Rightarrow> gvalue"
  and reflect_Zero_field :: "StructField \<Rightarrow> gvalue" where
  "reflect_Zero Int64T = Int64V 0"
| "reflect_Zero StringT = StringV []"
| "reflect_Zero ErrorT = NilV ErrorT"
| "reflect_Zero ErrorImplT = NilV ErrorImplT"
| "reflect_Zero DBResourceT = NilV DBResourceT"
| "reflect_Zero HandleT = ResV 0"
| "reflect_Zero (StructT n fs) = StructV (StructT n fs) (map reflect_Zero_field fs)"
| "reflect_Zero (PointerT t) = NilV (PointerT t)"
| "reflect_Zero (SliceT t) = NilV (SliceT t)"
| "reflect_Zero (FuncT ins outs) = NilV (FuncT ins outs)"
| "reflect_Zero_field (StructField n p t tg) = reflect_Zero t"

text \<open>The dynamic type of a value, as \<^verbatim>\<open>reflect.ValueOf(v).Type()\<close> gives it.\<close>

fun TypeOf :: "gvalue \<Rightarrow> gtype" where
  "TypeOf (Int64V i) = Int64T"
| "TypeOf (StringV s) = StringT"
| "TypeOf (StructV t vs) = t"
| "TypeOf (NilV t) = t"
| "TypeOf (PtrV t v) = PointerT t"
| "TypeOf (SliceV t vs) = SliceT t"
| "TypeOf (ErrV e) = ErrorImplT"
| "TypeOf (ResV r) = HandleT"
| "TypeOf (FuncV t c) = t"

text \<open>\<^verbatim>\<open>t.Elem()\<close> of a pointer or slice type. It is called on such types only;
  the two opaque implementing types stand for themselves.\<close>

fun Elem :: "gtype \<Rightarrow> gtype" where
  "Elem (PointerT t) = t"
| "Elem (SliceT t) = t"
| "Elem t = t"

text \<open>
  What \<^verbatim>\<open>reflect\<close> checks on the results of a function made by
  \<^verbatim>\<open>reflect.MakeFunc\<close>: a result of a type of size zero is skipped, any other must
  be assignable to the declared result type (the same type, or a type implementing
  the declared interface).
\<close>

primrec zero_Size :: "gtype \<Rightarrow> bool"
  and zero_Size_field :: "StructField \<Rightarrow> bool" where
  "zero_Size Int64T = False"
| "zero_Size StringT = False"
| "zero_Size ErrorT = False"
| "zero_Size ErrorImplT = False"
| "zero_Size DBResourceT = False"
| "zero_Size HandleT = False"
| "zero_Size (StructT n fs) = list_all zero_Size_field fs"
| "zero_Size (PointerT t) = False"
| "zero_Size (SliceT t) = False"
| "zero_Size (FuncT ins outs) = False"
| "zero_Size_field (StructField n p t tg) = zero_Size t"

fun implements :: "gtype \<Rightarrow> gtype \<Rightarrow> bool" where
  "implements ErrorImplT ErrorT = True"
| "implements HandleT DBResourceT = True"
| "implements v t = False"

definition assignable :: "gtype \<Rightarrow> gtype \<Rightarrow> bool" where
  "assignable v t = (v = t \<or> implements v t)"

section \<open>The collaborators\<close>

text \<open>
  \<^verbatim>\<open>sql.Result\<close> with its two accessors, each of which may fail.
\<close>

record sql_Result =
  LastInsertId :: "error + int64"
  RowsAffected :: "error + int64"

text \<open>
  The database driver and the scanning library are not part of the repository: they
  are parameters. \<open>'s\<close> is the state of the database, \<open>'r\<close> a row cursor
  (\<^verbatim>\<open>*sql.Rows\<close>). A scanning function gets what its destination pointer points to
  and the cursor, and gives what the pointer points to afterwards and its error.
\<close>

record ('s, 'r) world =
  ExecContext :: "resource \<Rightarrow> ctx \<Rightarrow> string \<Rightarrow> gvalue list \<Rightarrow> 's \<Rightarrow> (error + sql_Result) \<times> 's"
  QueryContext :: "resource \<Rightarrow> ctx \<Rightarrow> string \<Rightarrow> gvalue list \<Rightarrow> 's \<Rightarrow> (error + 'r) \<times> 's"
  ScanOne :: "gvalue \<Rightarrow> 'r \<Rightarrow> gvalue \<times> error option"
  ScanRow :: "gvalue \<Rightarrow> 'r \<Rightarrow> gvalue \<times> error option"
  ScanAll :: "gvalue \<Rightarrow> 'r \<Rightarrow> gvalue \<times> error option"

text \<open>\<^verbatim>\<open>QueryLoader.Get\<close>.\<close>

type_synonym QueryLoader = "string \<Rightarrow> error + string"

text \<open>
  \<^verbatim>\<open>fsQueryLoader.Get\<close> of loaders.go: open the file at the joined path, read it whole.
  The file system (\<open>Open\<close>, giving what \<^verbatim>\<open>io.ReadAll\<close> then returns) and
  \<^verbatim>\<open>path.Join\<close> are parameters.
\<close>

record ResourceFS =
  Source :: "string \<Rightarrow> error + (error + string)"
  RootPath :: string
  DontPrefix :: bool

definition fsQueryLoader_Get :: "(string \<Rightarrow> string \<Rightarrow> string) \<Rightarrow> ResourceFS \<Rightarrow> QueryLoader" where
  "fsQueryLoader_Get path_Join res name =
     (case Source res (path_Join (RootPath res) name) of
        Inl err \<Rightarrow> Inl err
      | Inr fd \<Rightarrow> (case fd of Inl err \<Rightarrow> Inl err | Inr b \<Rightarrow> Inr b))"

section \<open>The synthesized closures\<close>

text \<open>\<^verbatim>\<open>v.Interface().(DBResource)\<close>: the handle, when the value is one.\<close>

fun as_DBResource :: "gvalue \<Rightarrow> resource option" where
  "as_DBResource (ResV r) = Some r"
| "as_DBResource v = None"

text \<open>\<^verbatim>\<open>getErrorValue\<close>.\<close>

definition getErrorValue :: "error option \<Rightarrow> gvalue" where
  "getErrorValue err = (case err of None \<Rightarrow> reflect_Zero ErrorT | Some e \<Rightarrow> ErrV e)"

text \<open>
  The inner function \<^verbatim>\<open>exec\<close> of \<^verbatim>\<open>runner\<close>: choose the executor and the query
  parameters from the arguments, execute, read the identifier (only with
  \<^verbatim>\<open>lastInsertIDSupport\<close>) and the affected count.
\<close>

definition exec ::
  "('s, 'r) world \<Rightarrow> ctx \<Rightarrow> resource \<Rightarrow> bool \<Rightarrow> string \<Rightarrow> gvalue list \<Rightarrow> 's
     \<Rightarrow> (int64 \<times> int64 \<times> error option) \<times> 's" where
  "exec w ctx handle lastInsertIDSupport query args s =
     (let (executor, values) =
        (if length args \<ge> 1 then
           (case as_DBResource (hd args) of
              Some tx \<Rightarrow> (tx, tl args)
            | None \<Rightarrow> (handle, args))
         else (handle, args))
      in case ExecContext w executor ctx query values s of
           (Inl err, s') \<Rightarrow> ((0, 0, Some err), s')
         | (Inr result, s') \<Rightarrow>
             (case (if lastInsertIDSupport then LastInsertId result else Inr 0) of
                Inl err \<Rightarrow> ((0, 0, Some err), s')
              | Inr id' \<Rightarrow>
                  (case RowsAffected result of
                     Inl err \<Rightarrow> ((0, 0, Some err), s')
                   | Inr affected \<Rightarrow> ((id', affected, None), s'))))"

text \<open>
  The inner function \<^verbatim>\<open>Query\<close> of \<^verbatim>\<open>runner\<close>. Its first result is \<open>None\<close> for the
  nil interface. \<^verbatim>\<open>reflect.MakeSlice\<close> panics on a type that is not a slice type.
\<close>

definition Query ::
  "('s, 'r) world \<Rightarrow> ctx \<Rightarrow> resource \<Rightarrow> string \<Rightarrow> gvalue list \<Rightarrow> bool \<Rightarrow> gtype \<Rightarrow> 's
     \<Rightarrow> (gvalue option \<times> error option) outcome \<times> 's" where
  "Query w ctx handle query args one oType s =
     (let (executor, values) =
        (if length args \<ge> 1 then
           (case as_DBResource (hd args) of
              Some tx \<Rightarrow> (tx, tl args)
            | None \<Rightarrow> (handle, args))
         else (handle, args))
      in case QueryContext w executor ctx query values s of
           (Inl err, s') \<Rightarrow> (Returns (None, Some err), s')
         | (Inr rows, s') \<Rightarrow>
             (if one then
                (if Kind oType = reflect_Pointer then
                   (let elem = Elem oType;
                        (pointee, err) = ScanOne w (reflect_Zero elem) rows
                    in case err of
                         None \<Rightarrow> (Returns (Some (PtrV elem pointee), None), s')
                       | Some e \<Rightarrow>
                           if errors_Is e ErrNoRows
                           then (Returns (Some (reflect_Zero oType), None), s')
                           else (Returns (Some (PtrV elem pointee), Some e), s'))
                 else
                   (let (pointee, err) = ScanRow w (reflect_Zero oType) rows;
                        err = (case err of
                                 None \<Rightarrow> None
                               | Some e \<Rightarrow> if errors_Is e ErrNoRows then None else Some e)
                    in (Returns (Some (PtrV oType pointee), err), s')))
              else
                (if Kind oType \<noteq> reflect_Slice
                 then (Panics (PanicString ''reflect.MakeSlice of non-slice type''), s')
                 else
                   (let valueInstance = SliceV (Elem oType) [];
                        (pointee, err) = ScanAll w valueInstance rows
                    in (Returns (Some pointee, err), s')))))"

text \<open>
  \<^verbatim>\<open>runner\<close>: the switch on \<^verbatim>\<open>typ.NumOut()\<close> chooses the closure at bind time;
  any other number of results reaches the final \<^verbatim>\<open>panic\<close>.
\<close>

definition runner ::
  "ctx \<Rightarrow> resource \<Rightarrow> bool \<Rightarrow> gtype \<Rightarrow> bool \<Rightarrow> bool \<Rightarrow> string \<Rightarrow> panic + closure" where
  "runner ctx handle lastInsertIDSupport typ isExec singleSelection query =
     (case typ of
        FuncT ins outs \<Rightarrow>
          (let numOut = length outs;
               closure = (\<lambda>c. Closure c typ singleSelection query ctx handle lastInsertIDSupport)
           in if isExec then
                (if numOut = 0 then Inr (closure ExecNone)
                 else if numOut = 1 then Inr (closure ExecError)
                 else if numOut = 2 then Inr (closure ExecIdAffected)
                 else if numOut = 3 then Inr (closure ExecIdAffectedError)
                 else Inl (PanicError (ErrUnsupportedReturnType typ)))
              else
                (if numOut = 1 then Inr (closure QueryValue)
                 else if numOut = 2 then Inr (closure QueryValueError)
                 else Inl (PanicError (ErrUnsupportedReturnType typ))))
      | _ \<Rightarrow> Inl (PanicString ''reflect: NumOut of non-func type''))"

text \<open>\<^verbatim>\<open>typ.Out(0)\<close>, which panics when the function type has no result.\<close>

fun Out0 :: "gtype \<Rightarrow> gtype option" where
  "Out0 (FuncT ins (t # outs)) = Some t"
| "Out0 t = None"

text \<open>
  The bodies of the six closures. A result is a \<^verbatim>\<open>reflect.Value\<close>: \<open>None\<close> is the
  zero Value, which \<^verbatim>\<open>reflect.ValueOf\<close> gives for the nil interface.
\<close>

definition invoke ::
  "('s, 'r) world \<Rightarrow> closure \<Rightarrow> gvalue list \<Rightarrow> 's \<Rightarrow> gvalue option list outcome \<times> 's" where
  "invoke w c args s =
     (case conv c of
        ExecNone \<Rightarrow>
          (case exec w (cctx c) (chandle c) (clastInsertIDSupport c) (cquery c) args s of
             ((id', affected, err), s') \<Rightarrow>
               (case err of
                  Some e \<Rightarrow> (Panics (PanicError e), s')
                | None \<Rightarrow> (Returns [], s')))
      | ExecError \<Rightarrow>
          (case exec w (cctx c) (chandle c) (clastInsertIDSupport c) (cquery c) args s of
             ((id', affected, err), s') \<Rightarrow> (Returns [Some (getErrorValue err)], s'))
      | ExecIdAffected \<Rightarrow>
          (case exec w (cctx c) (chandle c) (clastInsertIDSupport c) (cquery c) args s of
             ((id', affected, err), s') \<Rightarrow>
               (case err of
                  Some e \<Rightarrow> (Panics (PanicError e), s')
                | None \<Rightarrow> (Returns [Some (Int64V id'), Some (Int64V affected)], s')))
      | ExecIdAffectedError \<Rightarrow>
          (case exec w (cctx c) (chandle c) (clastInsertIDSupport c) (cquery c) args s of
             ((id', affected, err), s') \<Rightarrow>
               (Returns [Some (Int64V id'), Some (Int64V affected), Some (getErrorValue err)], s'))
      | QueryValue \<Rightarrow>
          (case Out0 (ctyp c) of
             None \<Rightarrow> (Panics (PanicString ''reflect: Func index out of bounds''), s)
           | Some oType \<Rightarrow>
               (case Query w (cctx c) (chandle c) (cquery c) args (csingle c) oType s of
                  (Panics p, s') \<Rightarrow> (Panics p, s')
                | (Returns (rows, err), s') \<Rightarrow>
                    (case err of
                       Some e \<Rightarrow> (Panics (PanicError e), s')
                     | None \<Rightarrow> (Returns [rows], s'))))
      | QueryValueError \<Rightarrow>
          (case Out0 (ctyp c) of
             None \<Rightarrow> (Panics (PanicString ''reflect: Func index out of bounds''), s)
           | Some oType \<Rightarrow>
               (case Query w (cctx c) (chandle c) (cquery c) args (csingle c) oType s of
                  (Panics p, s') \<Rightarrow> (Panics p, s')
                | (Returns (rows, err), s') \<Rightarrow>
                    (let rowsValue = (case rows of
                                        None \<Rightarrow> reflect_Zero oType
                                      | Some v \<Rightarrow> v)
                     in (Returns [Some rowsValue, Some (getErrorValue err)], s')))))"

text \<open>
  Calling a function value. The field of a struct that was never bound is a nil
  function; a function made by \<^verbatim>\<open>reflect.MakeFunc\<close> runs its closure and then has
  its results checked against the declared result types, in order.
\<close>

fun check_outs :: "gtype list \<Rightarrow> gvalue option list \<Rightarrow> gvalue list outcome" where
  "check_outs (t # ts) (v # vs) =
     (case v of
        None \<Rightarrow> Panics (PanicString ''reflect: function created by MakeFunc returned zero Value'')
      | Some x \<Rightarrow>
          if zero_Size t then
            (case check_outs ts vs of
               Panics p \<Rightarrow> Panics p
             | Returns rest \<Rightarrow> Returns (reflect_Zero t # rest))
          else if assignable (TypeOf x) t then
            (case check_outs ts vs of
               Panics p \<Rightarrow> Panics p
             | Returns rest \<Rightarrow> Returns (x # rest))
          else Panics (PanicNotAssignable (TypeOf x) t))"
| "check_outs ts vs = Returns []"

definition call ::
  "('s, 'r) world \<Rightarrow> gvalue \<Rightarrow> gvalue list \<Rightarrow> 's \<Rightarrow> gvalue list outcome \<times> 's" where
  "call w fn args s =
     (case fn of
        FuncV (FuncT ins outs) c \<Rightarrow>
          (case invoke w c args s of
             (Panics p, s') \<Rightarrow> (Panics p, s')
           | (Returns out, s') \<Rightarrow>
               if length out \<noteq> length outs
               then (Panics (PanicString
                      ''reflect: wrong return count from function created by MakeFunc''), s')
               else (check_outs outs out, s'))
      | _ \<Rightarrow> (Panics (PanicString ''invalid memory address or nil pointer dereference''), s))"

section \<open>Binding\<close>

definition HasPrefix :: "string \<Rightarrow> string \<Rightarrow> bool" where
  "HasPrefix s p = (length p \<le> length s \<and> take (length p) s = p)"

definition HasSuffix :: "string \<Rightarrow> string \<Rightarrow> bool" where
  "HasSuffix s suf = (length suf \<le> length s \<and> drop (length s - length suf) s = suf)"

definition CutPrefix :: "string \<Rightarrow> string \<Rightarrow> string \<times> bool" where
  "CutPrefix s p = (if HasPrefix s p then (drop (length p) s, True) else (s, False))"

text \<open>\<^verbatim>\<open>resolveQuery\<close>.\<close>

definition resolveQuery :: "QueryLoader \<Rightarrow> string \<Rightarrow> string \<Rightarrow> error + string" where
  "resolveQuery qLoder q fnName =
     (case CutPrefix q ''file:'' of
        (spec, found) \<Rightarrow>
          if found then
            (let spec = (if \<not> HasSuffix spec ''.sql'' then spec @ ''.sql'' else spec)
             in case qLoder spec of
                  Inl err \<Rightarrow>
                    Inl (JoinError (ErrorString (fnName @ '': failed to load file '' @ q)) err)
                | Inr spec \<Rightarrow> Inr spec)
          else Inr spec)"

text \<open>
  \<^verbatim>\<open>value.FieldByName(name).Set(v)\<close> on the fields of the struct: the first field
  of that name gets the value.
\<close>

fun FieldByName_Set :: "StructField list \<Rightarrow> gvalue list \<Rightarrow> string \<Rightarrow> gvalue \<Rightarrow> gvalue list" where
  "FieldByName_Set (f # fs) (x # xs) name v =
     (if Name f = name then v # xs else x # FieldByName_Set fs xs name v)"
| "FieldByName_Set fs xs name v = xs"

datatype bind_status = BindOk | BindErr error | BindPanic panic

text \<open>
  The statement
  \<^verbatim>\<open>value.FieldByName(field.Name).Set(reflect.MakeFunc(fType, runner(fType, ...)))\<close>
  of the three branches. \<open>value\<close> is \<open>None\<close> when the target is a nil pointer:
  \<^verbatim>\<open>FieldByName\<close> on the zero Value panics, before \<^verbatim>\<open>runner\<close> is called.
\<close>

definition install ::
  "ctx \<Rightarrow> resource \<Rightarrow> bool \<Rightarrow> StructField list \<Rightarrow> gvalue list option \<Rightarrow> StructField
     \<Rightarrow> bool \<Rightarrow> bool \<Rightarrow> string \<Rightarrow> panic + gvalue list option" where
  "install ctx handle lastInsertIDSupport flds value field isExec singleSelection script =
     (case value of
        None \<Rightarrow> Inl (PanicString ''reflect: call of reflect.Value.FieldByName on zero Value'')
      | Some slots \<Rightarrow>
          (case runner ctx handle lastInsertIDSupport (Type field) isExec singleSelection script of
             Inl p \<Rightarrow> Inl p
           | Inr fn \<Rightarrow>
               Inr (Some (FieldByName_Set flds slots (Name field) (FuncV (Type field) fn)))))"

text \<open>
  The loop of \<^verbatim>\<open>Bind\<close> over the fields, from the current one on. It returns how
  binding ended and the fields of the struct as it left them.
\<close>

fun bind_fields ::
  "ctx \<Rightarrow> resource \<Rightarrow> QueryLoader \<Rightarrow> bool \<Rightarrow> StructField list \<Rightarrow> StructField list
     \<Rightarrow> gvalue list option \<Rightarrow> bind_status \<times> gvalue list option" where
  "bind_fields ctx handle qLoder lastInsertIDSupport flds [] value = (BindOk, value)"
| "bind_fields ctx handle qLoder lastInsertIDSupport flds (field # rest) value =
     (let fType = Type field in
      if Kind fType = reflect_Func \<and> IsExported field then
        (let exec = Tag_Get (Tag field) ''@exec'';
             queryAll = Tag_Get (Tag field) ''@query'';
             queryOne = Tag_Get (Tag field) ''@queryOne''
         in if queryOne \<noteq> [] then
              (case resolveQuery qLoder queryOne (Name field) of
                 Inl err \<Rightarrow> (BindErr err, value)
               | Inr script \<Rightarrow>
                   (case install ctx handle lastInsertIDSupport flds value field False True script of
                      Inl p \<Rightarrow> (BindPanic p, value)
                    | Inr value' \<Rightarrow>
                        bind_fields ctx handle qLoder lastInsertIDSupport flds rest value'))
            else if queryAll \<noteq> [] then
              (case resolveQuery qLoder queryAll (Name field) of
                 Inl err \<Rightarrow> (BindErr err, value)
               | Inr script \<Rightarrow>
                   (case install ctx handle lastInsertIDSupport flds value field False False script of
                      Inl p \<Rightarrow> (BindPanic p, value)
                    | Inr value' \<Rightarrow>
                        bind_fields ctx handle qLoder lastInsertIDSupport flds rest value'))
            else if exec \<noteq> [] then
              (case resolveQuery qLoder exec (Name field) of
                 Inl err \<Rightarrow> (BindErr err, value)
               | Inr script \<Rightarrow>
                   (case install ctx handle lastInsertIDSupport flds value field True False script of
                      Inl p \<Rightarrow> (BindPanic p, value)
                    | Inr value' \<Rightarrow>
                        bind_fields ctx handle qLoder lastInsertIDSupport flds rest value'))
            else
              (BindErr (ErrorString
                 (Name field @ '': function is defined but does not have any queries'')), value))
      else bind_fields ctx handle qLoder lastInsertIDSupport flds rest value)"

text \<open>
  \<^verbatim>\<open>Bind\<close>. The target is changed in place, so the result holds both how binding
  ended and the target as it is afterwards.
\<close>

definition Bind ::
  "ctx \<Rightarrow> resource \<Rightarrow> gvalue \<Rightarrow> QueryLoader \<Rightarrow> bool \<Rightarrow> bind_status \<times> gvalue" where
  "Bind ctx handle dst qLoder lastInsertIDSupport =
     (let vType = TypeOf dst in
      if Kind vType \<noteq> reflect_Pointer then (BindErr (ErrorString ''must be a pointer''), dst)
      else if Kind (Elem vType) \<noteq> reflect_Struct then (BindErr (ErrMustBePointerToStruct vType), dst)
      else
        (case Elem vType of
           StructT n flds \<Rightarrow>
             (let value = (case dst of
                             PtrV t (StructV t' slots) \<Rightarrow> Some slots
                           | _ \<Rightarrow> None)
              in case bind_fields ctx handle qLoder lastInsertIDSupport flds flds value of
                   (status, Some slots') \<Rightarrow>
                     (status, PtrV (StructT n flds) (StructV (StructT n flds) slots'))
                 | (status, None) \<Rightarrow> (status, dst))
         | _ \<Rightarrow> (BindErr (ErrMustBePointerToStruct vType), dst)))"

section \<open>Notions used to state the properties\<close>

text \<open>
  The resource a call is to run against and the parameters it is to pass, as the
  specification words them: a first argument that is a resource overrides the
  default and is not a parameter.
\<close>

definition spec_resource :: "resource \<Rightarrow> gvalue list \<Rightarrow> resource" where
  "spec_resource handle args =
     (case args of
        [] \<Rightarrow> handle
      | a # rest \<Rightarrow> (case as_DBResource a of Some tx \<Rightarrow> tx | None \<Rightarrow> handle))"

definition spec_params :: "gvalue list \<Rightarrow> gvalue list" where
  "spec_params args =
     (case args of
        [] \<Rightarrow> []
      | a # rest \<Rightarrow> (case as_DBResource a of Some tx \<Rightarrow> rest | None \<Rightarrow> a # rest))"

text \<open>
  A driver that also records every statement it is given: whether it was an
  execution, the resource, the context, the text and the parameters.
\<close>

type_synonym driver_call = "bool \<times> resource \<times> ctx \<times> string \<times> gvalue list"

definition logged :: "('s, 'r) world \<Rightarrow> ('s \<times> driver_call list, 'r) world" where
  "logged w =
     \<lparr>ExecContext = (\<lambda>res ctx q vs (s, log).
        (case ExecContext w res ctx q vs s of
           (r, s') \<Rightarrow> (r, (s', log @ [(True, res, ctx, q, vs)])))),
      QueryContext = (\<lambda>res ctx q vs (s, log).
        (case QueryContext w res ctx q vs s of
           (r, s') \<Rightarrow> (r, (s', log @ [(False, res, ctx, q, vs)])))),
      ScanOne = ScanOne w, ScanRow = ScanRow w, ScanAll = ScanAll w\<rparr>"

text \<open>
  A field the loop of \<open>Bind\<close> works on, the directive text its chain of tests
  selects (\<open>@queryOne\<close> before \<open>@query\<close> before \<open>@exec\<close>), and the two flags it
  then gives to \<open>runner\<close>.
\<close>

definition bindable :: "StructField \<Rightarrow> bool" where
  "bindable f = (Kind (Type f) = reflect_Func \<and> IsExported f)"

definition selected_directive :: "StructField \<Rightarrow> string" where
  "selected_directive f =
     (if Tag_Get (Tag f) ''@queryOne'' \<noteq> [] then Tag_Get (Tag f) ''@queryOne''
      else if Tag_Get (Tag f) ''@query'' \<noteq> [] then Tag_Get (Tag f) ''@query''
      else Tag_Get (Tag f) ''@exec'')"

definition selected_isExec :: "StructField \<Rightarrow> bool" where
  "selected_isExec f = (Tag_Get (Tag f) ''@queryOne'' = [] \<and> Tag_Get (Tag f) ''@query'' = [])"

definition selected_single :: "StructField \<Rightarrow> bool" where
  "selected_single f = (Tag_Get (Tag f) ''@queryOne'' \<noteq> [])"


text \<open>
  Go gives the fields of a struct distinct names (blank fields apart, which are not
  exported), so looking a bindable field up by its name finds that field. The
  position \<^verbatim>\<open>FieldByName\<close> finds is that of the first field of the name.
\<close>

fun FieldByName_index :: "StructField list \<Rightarrow> string \<Rightarrow> nat" where
  "FieldByName_index [] name = 0"
| "FieldByName_index (f # fs) name = (if Name f = name then 0 else Suc (FieldByName_index fs name))"

definition found_by_name :: "StructField list \<Rightarrow> bool" where
  "found_by_name fs =
     list_all (\<lambda>k. bindable (fs ! k) \<longrightarrow> FieldByName_index fs (Name (fs ! k)) = k) [0..<length fs]"

text \<open>
  The field values \<open>slots'\<close> differ from \<open>slots\<close> in that the bindable fields of the
  positions from \<open>k\<close> up to, not including, \<open>m\<close> hold a function made for their type;
  every other field is as it was.
\<close>

definition bound_upto ::
  "StructField list \<Rightarrow> gvalue list \<Rightarrow> nat \<Rightarrow> nat \<Rightarrow> gvalue list \<Rightarrow> bool" where
  "bound_upto fs slots k m slots' =
     (length slots' = length fs \<and>
      (\<forall>i<length fs.
         if k \<le> i \<and> i < m \<and> bindable (fs ! i)
         then \<exists>c. slots' ! i = FuncV (Type (fs ! i)) c
         else slots' ! i = slots ! i))"

text \<open>The field with, of its tag, only the directive of the given key.\<close>

definition with_only :: "string \<Rightarrow> StructField \<Rightarrow> StructField" where
  "with_only key f = StructField (Name f) (PkgPath f) (Type f) [(key, Tag_Get (Tag f) key)]"

text \<open>A pointer to a struct of the given type, holding the given field values.\<close>

definition target :: "string \<Rightarrow> StructField list \<Rightarrow> gvalue list \<Rightarrow> gvalue" where
  "target n fs slots = PtrV (StructT n fs) (StructV (StructT n fs) slots)"

text \<open>
  A small store to run the closures on: one table of users, held as a list of rows.
  An execution adds a user of the given name, a query with an identifier selects the
  rows of that identifier, a query without parameters selects all rows. A context
  \<open>WithCancel 0\<close> is one that has been cancelled. The scanning functions follow the
  interface the engine expects of them.
\<close>

definition UserT :: gtype where
  "UserT = StructT ''User''
     [StructField ''ID'' [] Int64T [(''db'', ''id'')],
      StructField ''Name'' [] StringT [(''db'', ''name'')]]"

fun row_id :: "gvalue \<Rightarrow> gvalue" where
  "row_id (StructV t (i # vs)) = i"
| "row_id v = v"

definition store :: "(gvalue list, gvalue list) world" where
  "store =
     \<lparr>ExecContext = (\<lambda>res ctx q vs rows.
        if ctx = WithCancel 0 then (Inl ContextCanceled, rows)
        else (Inr \<lparr>LastInsertId = Inr (of_nat (Suc (length rows))), RowsAffected = Inr 1\<rparr>,
              rows @ [StructV UserT (Int64V (of_nat (Suc (length rows))) # take 1 vs)])),
      QueryContext = (\<lambda>res ctx q vs rows.
        if ctx = WithCancel 0 then (Inl ContextCanceled, rows)
        else (case vs of
                [] \<Rightarrow> (Inr rows, rows)
              | v # _ \<Rightarrow> (Inr (filter (\<lambda>r. row_id r = v) rows), rows))),
      ScanOne = (\<lambda>dst rows.
        case rows of
          [] \<Rightarrow> (dst, Some (WrapError ''scanning one'' ErrNoRows))
        | r # others \<Rightarrow> if others = [] then (r, None)
                      else (dst, Some (ErrorString ''expected 1 row''))),
      ScanRow = (\<lambda>dst rows.
        case rows of
          [] \<Rightarrow> (dst, Some (WrapError ''scanning row'' ErrNoRows))
        | r # others \<Rightarrow> (r, None)),
      ScanAll = (\<lambda>dst rows.
        case dst of
          SliceV t xs \<Rightarrow> (SliceV t rows, None)
        | _ \<Rightarrow> (dst, Some (ErrorString ''destination is not a slice'')))\<rparr>"

text \<open>
  A directory without files behind the file loader, with paths joined by a slash,
  and the function types and fields used in the examples.
\<close>

definition slash_Join :: "string \<Rightarrow> string \<Rightarrow> string" where
  "slash_Join root name = root @ ''/'' @ name"

definition empty_dir :: ResourceFS where
  "empty_dir =
     \<lparr>Source = (\<lambda>p. Inl (ErrorString (''open '' @ p @ '': file does not exist''))),
      RootPath = ''test'', DontPrefix = False\<rparr>"

definition FindUserT :: gtype where
  "FindUserT = FuncT [Int64T] [PointerT UserT, ErrorT]"

definition FindUser_from_file :: StructField where
  "FindUser_from_file = StructField ''FindUser'' [] FindUserT [(''@queryOne'', ''file:find_user'')]"

definition no_loader :: QueryLoader where
  "no_loader name = Inl (ErrorString ''no loader'')"

definition FindUserValueT :: gtype where
  "FindUserValueT = FuncT [Int64T] [UserT, ErrorT]"

definition FindUser_by_value :: StructField where
  "FindUser_by_value =
     StructField ''FindUser'' [] FindUserValueT [(''@queryOne'', ''select * from users where id = $1'')]"

definition TouchT :: gtype where
  "TouchT = FuncT [StringT] []"

definition Touch :: StructField where
  "Touch = StructField ''Touch'' [] TouchT [(''@exec'', ''insert into users(name) values ($1)'')]"





definition Orphan :: StructField where
  "Orphan = StructField ''Orphan'' [] TouchT []"

definition Both :: StructField where
  "Both = StructField ''FindUser'' [] FindUserT
     [(''@queryOne'', ''select * from users where id = $1''), (''@exec'', ''delete from users'')]"

definition helper :: StructField where
  "helper = StructField ''helper'' ''main'' TouchT []"

definition Count :: StructField where
  "Count = StructField ''Count'' [] Int64T []"

text \<open>
  The same store behind a driver whose results cannot tell the last inserted
  identifier, as the comment of \<^verbatim>\<open>Bind\<close> says of PostgreSQL.
\<close>

definition store_without_identifier :: "(gvalue list, gvalue list) world" where
  "store_without_identifier =
     store\<lparr>ExecContext := (\<lambda>res ctx q vs rows.
        (Inr \<lparr>LastInsertId = Inl (ErrorString ''LastInsertId is not supported by this driver''),
              RowsAffected = Inr 1\<rparr>,
         rows @ [StructV UserT (Int64V (of_nat (Suc (length rows))) # take 1 vs)]))\<rparr>"

definition AddUserT :: gtype where
  "AddUserT = FuncT [StringT] [Int64T, Int64T, ErrorT]"

definition AddUserPanicT :: gtype where
  "AddUserPanicT = FuncT [StringT] [Int64T, Int64T]"

section \<open>Choosing the resource and the parameters\<close>

lemma exec_spec:
  "exec w ctx handle lastInsertIDSupport query args s =
     (case ExecContext w (spec_resource handle args) ctx query (spec_params args) s of
        (Inl err, s') \<Rightarrow> ((0, 0, Some err), s')
      | (Inr result, s') \<Rightarrow>
          (case (if lastInsertIDSupport then LastInsertId result else Inr 0) of
             Inl err \<Rightarrow> ((0, 0, Some err), s')
           | Inr i \<Rightarrow>
               (case RowsAffected result of
                  Inl err \<Rightarrow> ((0, 0, Some err), s')
                | Inr affected \<Rightarrow> ((i, affected, None), s'))))"
proof (cases args)
  case Nil
  then show ?thesis
    by (simp add: exec_def spec_resource_def spec_params_def)
next
  case (Cons a rest)
  then show ?thesis
    by (cases "as_DBResource a") (simp_all add: exec_def spec_resource_def spec_params_def)
qed

lemma Query_spec:
  "Query w ctx handle query args one oType s =
     (case QueryContext w (spec_resource handle args) ctx query (spec_params args) s of
        (Inl err, s') \<Rightarrow> (Returns (None, Some err), s')
      | (Inr rows, s') \<Rightarrow>
          (if one then
             (if Kind oType = reflect_Pointer then
                (case ScanOne w (reflect_Zero (Elem oType)) rows of
                   (pointee, None) \<Rightarrow> (Returns (Some (PtrV (Elem oType) pointee), None), s')
                 | (pointee, Some e) \<Rightarrow>
                     if errors_Is e ErrNoRows
                     then (Returns (Some (reflect_Zero oType), None), s')
                     else (Returns (Some (PtrV (Elem oType) pointee), Some e), s'))
              else
                (case ScanRow w (reflect_Zero oType) rows of
                   (pointee, err) \<Rightarrow>
                     (Returns (Some (PtrV oType pointee),
                        (case err of
                           None \<Rightarrow> None
                         | Some e \<Rightarrow> if errors_Is e ErrNoRows then None else Some e)), s')))
           else
             (if Kind oType \<noteq> reflect_Slice
              then (Panics (PanicString ''reflect.MakeSlice of non-slice type''), s')
              else (case ScanAll w (SliceV (Elem oType) []) rows of
                      (pointee, err) \<Rightarrow> (Returns (Some pointee, err), s')))))"
proof -
  have sel: "(if length args \<ge> 1 then
           (case as_DBResource (hd args) of
              Some tx \<Rightarrow> (tx, tl args)
            | None \<Rightarrow> (handle, args))
         else (handle, args)) = (spec_resource handle args, spec_params args)"
    by (cases args) (auto simp: spec_resource_def spec_params_def split: option.splits)
  show ?thesis
    unfolding Query_def sel
    by (auto simp: Let_def split: prod.splits sum.splits option.splits)
qed

lemma exec_state:
  "snd (exec w ctx handle lid query args s) =
     snd (ExecContext w (spec_resource handle args) ctx query (spec_params args) s)"
  by (auto simp: exec_spec split: prod.splits sum.splits)

lemma Query_state:
  "snd (Query w ctx handle query args one oType s) =
     snd (QueryContext w (spec_resource handle args) ctx query (spec_params args) s)"
  by (auto simp: Query_spec split: prod.splits sum.splits option.splits)

lemma logged_Exec_log:
  "snd (snd (ExecContext (logged w) res ctx q vs (s, log))) = log @ [(True, res, ctx, q, vs)]"
  by (simp add: logged_def split: prod.splits)

lemma logged_Query_log:
  "snd (snd (QueryContext (logged w) res ctx q vs (s, log))) = log @ [(False, res, ctx, q, vs)]"
  by (simp add: logged_def split: prod.splits)

section \<open>What \<open>runner\<close> returns\<close>

lemma Out0_FuncT:
  "Out0 (FuncT ins outs) = (case outs of [] \<Rightarrow> None | t # ts \<Rightarrow> Some t)"
  by (cases outs) simp_all

lemma runner_Inr:
  assumes "runner ctx handle lid typ isExec single query = Inr c"
  shows "c = Closure (conv c) typ single query ctx handle lid
       \<and> (isExec \<longleftrightarrow> conv c \<in> {ExecNone, ExecError, ExecIdAffected, ExecIdAffectedError})
       \<and> (\<not> isExec \<longrightarrow> Out0 typ \<noteq> None)"
  using assms
  by (cases "typ") (auto simp: runner_def Let_def Out0_FuncT split: if_splits list.splits)

lemma invoke_state_exec:
  assumes "conv c \<in> {ExecNone, ExecError, ExecIdAffected, ExecIdAffectedError}"
  shows "snd (invoke w c args s)
           = snd (exec w (cctx c) (chandle c) (clastInsertIDSupport c) (cquery c) args s)"
  using assms by (auto simp: invoke_def split: prod.splits option.splits)

lemma invoke_state_query:
  assumes "conv c \<in> {QueryValue, QueryValueError}" "Out0 (ctyp c) = Some oType"
  shows "snd (invoke w c args s)
           = snd (Query w (cctx c) (chandle c) (cquery c) args (csingle c) oType s)"
  using assms by (auto simp: invoke_def Let_def split: prod.splits option.splits outcome.splits)

lemma runner_query_one:
  "runner ctx handle lid (FuncT ins [t]) False single query
     = Inr (Closure QueryValue (FuncT ins [t]) single query ctx handle lid)"
  by (simp add: runner_def)

lemma runner_query_two:
  "runner ctx handle lid (FuncT ins [t, u]) False single query
     = Inr (Closure QueryValueError (FuncT ins [t, u]) single query ctx handle lid)"
  by (simp add: runner_def)

lemma runner_exec:
  "runner ctx handle lid (FuncT ins []) True single query
     = Inr (Closure ExecNone (FuncT ins []) single query ctx handle lid)"
  "runner ctx handle lid (FuncT ins [t]) True single query
     = Inr (Closure ExecError (FuncT ins [t]) single query ctx handle lid)"
  "runner ctx handle lid (FuncT ins [t, u]) True single query
     = Inr (Closure ExecIdAffected (FuncT ins [t, u]) single query ctx handle lid)"
  "runner ctx handle lid (FuncT ins [t, u, v]) True single query
     = Inr (Closure ExecIdAffectedError (FuncT ins [t, u, v]) single query ctx handle lid)"
  by (simp_all add: runner_def)

section \<open>Calling a bound function\<close>

lemma call_FuncV:
  "call w (FuncV (FuncT ins outs) c) args s =
     (case invoke w c args s of
        (Panics p, s') \<Rightarrow> (Panics p, s')
      | (Returns out, s') \<Rightarrow>
          if length out \<noteq> length outs
          then (Panics (PanicString
                 ''reflect: wrong return count from function created by MakeFunc''), s')
          else (check_outs outs out, s'))"
  by (simp add: call_def)

lemma TypeOf_reflect_Zero: "TypeOf (reflect_Zero t) = t"
  by (cases t) simp_all

lemma pointer_not_assignable: "\<not> assignable (PointerT t) t"
proof -
  have "size (PointerT t) \<noteq> size t" by simp
  then have "PointerT t \<noteq> t" by metis
  then show ?thesis by (simp add: assignable_def)
qed

section \<open>Strings and the resolver\<close>

lemma HasPrefix_iff: "HasPrefix s p \<longleftrightarrow> (\<exists>r. s = p @ r)"
  unfolding HasPrefix_def
  by (metis append_eq_conv_conj append_take_drop_id length_append le_add1)

lemma HasSuffix_iff: "HasSuffix s suf \<longleftrightarrow> (\<exists>p. s = p @ suf)"
proof
  assume "HasSuffix s suf"
  then have "s = take (length s - length suf) s @ suf"
    unfolding HasSuffix_def by (metis append_take_drop_id)
  then show "\<exists>p. s = p @ suf" ..
next
  assume "\<exists>p. s = p @ suf"
  then show "HasSuffix s suf" unfolding HasSuffix_def by auto
qed

lemma CutPrefix_file: "CutPrefix (''file:'' @ name) ''file:'' = (name, True)"
  by (simp add: CutPrefix_def HasPrefix_def)

lemma resolveQuery_file:
  "resolveQuery L (''file:'' @ name) fn =
     (case L (if HasSuffix name ''.sql'' then name else name @ ''.sql'') of
        Inl e \<Rightarrow> Inl (JoinError (ErrorString (fn @ '': failed to load file '' @ ''file:'' @ name)) e)
      | Inr t \<Rightarrow> Inr t)"
  unfolding resolveQuery_def CutPrefix_file by (simp add: Let_def)

lemma resolveQuery_literal:
  "\<not> HasPrefix q ''file:'' \<Longrightarrow> resolveQuery L q fn = Inr q"
  by (simp add: resolveQuery_def CutPrefix_def)

section \<open>The loop over the fields\<close>

lemma bind_fields_append:
  "bind_fields ctx h L lid flds (pre @ rest) value =
     (case bind_fields ctx h L lid flds pre value of
        (BindOk, value') \<Rightarrow> bind_fields ctx h L lid flds rest value'
      | r \<Rightarrow> r)"
proof (induction pre arbitrary: "value")
  case Nil
  show ?case by simp
next
  case (Cons f pre)
  show ?case
    by (simp add: Cons.IH Let_def split: sum.splits)
qed

lemma bind_fields_skip:
  "\<not> bindable f \<Longrightarrow>
   bind_fields ctx h L lid flds (f # rest) value = bind_fields ctx h L lid flds rest value"
  by (auto simp: bindable_def)

lemma bind_fields_step:
  "bindable f \<Longrightarrow>
   bind_fields ctx h L lid flds (f # rest) value =
     (if selected_directive f = [] then
        (BindErr (ErrorString
           (Name f @ '': function is defined but does not have any queries'')), value)
      else
        (case resolveQuery L (selected_directive f) (Name f) of
           Inl err \<Rightarrow> (BindErr err, value)
         | Inr script \<Rightarrow>
             (case install ctx h lid flds value f (selected_isExec f) (selected_single f) script of
                Inl p \<Rightarrow> (BindPanic p, value)
              | Inr value' \<Rightarrow> bind_fields ctx h L lid flds rest value')))"
  by (auto simp: bindable_def selected_directive_def selected_isExec_def selected_single_def Let_def
           split: sum.splits)

lemma Bind_target:
  "Bind ctx h (target n fs slots) L lid =
     (case bind_fields ctx h L lid fs fs (Some slots) of
        (status, Some slots') \<Rightarrow> (status, target n fs slots')
      | (status, None) \<Rightarrow> (status, target n fs slots))"
  by (simp add: Bind_def target_def Let_def split: prod.splits option.splits)

lemma Bind_target_status:
  "fst (Bind ctx h (target n fs slots) L lid) = fst (bind_fields ctx h L lid fs fs (Some slots))"
  by (simp add: Bind_target split: prod.splits option.splits)

lemma bind_fields_reaches:
  assumes "fst (bind_fields ctx h L lid flds pre value) = BindOk"
  shows "fst (bind_fields ctx h L lid flds (pre @ rest) value)
           = fst (bind_fields ctx h L lid flds rest (snd (bind_fields ctx h L lid flds pre value)))"
  using assms by (cases "bind_fields ctx h L lid flds pre value") (simp add: bind_fields_append)


lemma install_Some:
  "install ctx h lid flds (Some slots) f isExec single script =
     (case runner ctx h lid (Type f) isExec single script of
        Inl p \<Rightarrow> Inl p
      | Inr fn \<Rightarrow> Inr (Some (FieldByName_Set flds slots (Name f) (FuncV (Type f) fn))))"
  by (simp add: install_def)



lemma FieldByName_Set_update:
  "length xs = length fs \<Longrightarrow>
   FieldByName_Set fs xs name v = xs[FieldByName_index fs name := v]"
  by (induction fs xs name v rule: FieldByName_Set.induct) auto

lemma found_by_nameD:
  "found_by_name fs \<Longrightarrow> k < length fs \<Longrightarrow> bindable (fs ! k) \<Longrightarrow>
   FieldByName_index fs (Name (fs ! k)) = k"
  by (simp add: found_by_name_def list_all_iff)

lemma bound_upto_refl: "length slots = length fs \<Longrightarrow> bound_upto fs slots k k slots"
  by (auto simp: bound_upto_def)

lemma bound_upto_skip:
  assumes "bound_upto fs slots (Suc k) m slots'" "\<not> bindable (fs ! k)"
  shows "bound_upto fs slots k m slots'"
  using assms unfolding bound_upto_def
  by (metis Suc_leI le_neq_implies_less Suc_leD)

lemma bound_upto_install:
  assumes "bound_upto fs (slots[k := FuncV (Type (fs ! k)) c]) (Suc k) m slots'"
      and "k < length fs" "length slots = length fs" "Suc k \<le> m" "bindable (fs ! k)"
  shows "bound_upto fs slots k m slots'"
  unfolding bound_upto_def
proof (intro conjI allI impI)
  show "length slots' = length fs" using assms(1) by (simp add: bound_upto_def)
next
  fix i assume i: "i < length fs"
  from assms(1) i have IH:
    "if Suc k \<le> i \<and> i < m \<and> bindable (fs ! i)
     then \<exists>c. slots' ! i = FuncV (Type (fs ! i)) c
     else slots' ! i = (slots[k := FuncV (Type (fs ! k)) c]) ! i"
    by (simp add: bound_upto_def)
  show "if k \<le> i \<and> i < m \<and> bindable (fs ! i)
         then \<exists>c. slots' ! i = FuncV (Type (fs ! i)) c
         else slots' ! i = slots ! i"
  proof (cases "i = k")
    case True
    then have "slots' ! i = FuncV (Type (fs ! k)) c"
      using IH assms(2,3) by simp
    then show ?thesis using True assms(4,5) by auto
  next
    case False
    then show ?thesis using IH by (auto simp: Suc_le_eq)
  qed
qed

lemma bind_fields_invariant:
  assumes found: "found_by_name fs"
  shows "length slots = length fs \<Longrightarrow> k \<le> length fs \<Longrightarrow>
         \<exists>slots' m. snd (bind_fields ctx h L lid fs (drop k fs) (Some slots)) = Some slots'
           \<and> k \<le> m \<and> m \<le> length fs
           \<and> (fst (bind_fields ctx h L lid fs (drop k fs) (Some slots)) = BindOk \<longrightarrow> m = length fs)
           \<and> (fst (bind_fields ctx h L lid fs (drop k fs) (Some slots)) \<noteq> BindOk \<longrightarrow>
                 m < length fs \<and> bindable (fs ! m))
           \<and> bound_upto fs slots k m slots'"
proof (induction "length fs - k" arbitrary: k slots)
  case 0
  then have "drop k fs = []" by simp
  then show ?case using 0 by (auto simp: bound_upto_refl)
next
  case (Suc d)
  then have k: "k < length fs" by simp
  then have dr: "drop k fs = fs ! k # drop (Suc k) fs" by (simp add: Cons_nth_drop_Suc)
  let ?f = "fs ! k"
  let ?goal = ?case
  have IH: "\<exists>slots' m.
      snd (bind_fields ctx h L lid fs (drop (Suc k) fs) (Some sl)) = Some slots'
      \<and> Suc k \<le> m \<and> m \<le> length fs
      \<and> (fst (bind_fields ctx h L lid fs (drop (Suc k) fs) (Some sl)) = BindOk \<longrightarrow> m = length fs)
      \<and> (fst (bind_fields ctx h L lid fs (drop (Suc k) fs) (Some sl)) \<noteq> BindOk \<longrightarrow>
            m < length fs \<and> bindable (fs ! m))
      \<and> bound_upto fs sl (Suc k) m slots'" if "length sl = length fs" for sl
    using Suc.hyps(1)[of "Suc k" sl] Suc.hyps(2) that k by simp
  show ?case
  proof (cases "bindable ?f")
    case False
    from IH[OF Suc.prems(1)] obtain slots' m where
      *: "snd (bind_fields ctx h L lid fs (drop (Suc k) fs) (Some slots)) = Some slots'"
         "Suc k \<le> m" "m \<le> length fs"
         "fst (bind_fields ctx h L lid fs (drop (Suc k) fs) (Some slots)) = BindOk \<longrightarrow> m = length fs"
         "fst (bind_fields ctx h L lid fs (drop (Suc k) fs) (Some slots)) \<noteq> BindOk \<longrightarrow>
            m < length fs \<and> bindable (fs ! m)"
         "bound_upto fs slots (Suc k) m slots'"
      by blast
    have "bound_upto fs slots k m slots'" using bound_upto_skip[OF *(6) False] .
    with * show ?thesis
      unfolding dr bind_fields_skip[OF False]
      by (intro exI[of _ slots'] exI[of _ m]) simp
  next
    case True
    have step_eq: "bind_fields ctx h L lid fs (drop k fs) (Some slots) =
       (if selected_directive ?f = [] then
          (BindErr (ErrorString
             (Name ?f @ '': function is defined but does not have any queries'')), Some slots)
        else
          (case resolveQuery L (selected_directive ?f) (Name ?f) of
             Inl err \<Rightarrow> (BindErr err, Some slots)
           | Inr script \<Rightarrow>
               (case install ctx h lid fs (Some slots) ?f (selected_isExec ?f)
                       (selected_single ?f) script of
                  Inl p \<Rightarrow> (BindPanic p, Some slots)
                | Inr value' \<Rightarrow> bind_fields ctx h L lid fs (drop (Suc k) fs) value')))"
      unfolding dr by (rule bind_fields_step[OF True])
    have stop: ?goal
      if "snd (bind_fields ctx h L lid fs (drop k fs) (Some slots)) = Some slots"
         "fst (bind_fields ctx h L lid fs (drop k fs) (Some slots)) \<noteq> BindOk"
      using that True k Suc.prems(1)
      by (intro exI[of _ slots] exI[of _ k]) (simp add: bound_upto_refl)
    show ?thesis
    proof (cases "selected_directive ?f = []")
      case True
      show ?thesis
        by (rule stop) (simp_all add: step_eq True)
    next
      case sel: False
      show ?thesis
      proof (cases "resolveQuery L (selected_directive ?f) (Name ?f)")
        case (Inl err)
        show ?thesis
          by (rule stop) (simp_all add: step_eq sel Inl)
      next
        case (Inr script)
        show ?thesis
        proof (cases "runner ctx h lid (Type ?f) (selected_isExec ?f) (selected_single ?f) script")
          case (Inl p)
          show ?thesis
            by (rule stop)
               (simp_all add: step_eq sel \<open>resolveQuery _ _ _ = Inr script\<close> install_Some Inl)
        next
          case (Inr fn)
          let ?sl = "slots[k := FuncV (Type ?f) fn]"
          have upd: "FieldByName_Set fs slots (Name ?f) (FuncV (Type ?f) fn) = ?sl"
            using FieldByName_Set_update[OF Suc.prems(1)] found_by_nameD[OF found k True] by simp
          have step: "bind_fields ctx h L lid fs (drop k fs) (Some slots)
                    = bind_fields ctx h L lid fs (drop (Suc k) fs) (Some ?sl)"
            by (simp add: step_eq sel \<open>resolveQuery _ _ _ = Inr script\<close> install_Some Inr upd)
          have len: "length ?sl = length fs" using Suc.prems(1) by simp
          from IH[OF len] obtain slots' m where
            *: "snd (bind_fields ctx h L lid fs (drop (Suc k) fs) (Some ?sl)) = Some slots'"
               "Suc k \<le> m" "m \<le> length fs"
               "fst (bind_fields ctx h L lid fs (drop (Suc k) fs) (Some ?sl)) = BindOk \<longrightarrow> m = length fs"
               "fst (bind_fields ctx h L lid fs (drop (Suc k) fs) (Some ?sl)) \<noteq> BindOk \<longrightarrow>
                  m < length fs \<and> bindable (fs ! m)"
               "bound_upto fs ?sl (Suc k) m slots'"
            by blast
          have "bound_upto fs slots k m slots'"
            using bound_upto_install[OF *(6) k Suc.prems(1) *(2) True] .
          with * show ?thesis
            unfolding step
            by (intro exI[of _ slots'] exI[of _ m]) simp
        qed
      qed
    qed
  qed
qed

lemma bind_fields_none_bindable:
  "\<forall>f\<in>set rest. \<not> bindable f \<Longrightarrow> bind_fields ctx h L lid flds rest value = (BindOk, value)"
proof (induction rest)
  case Nil
  show ?case by simp
next
  case (Cons f rest)
  then have "\<not> bindable f" by simp
  then show ?case unfolding bind_fields_skip[OF \<open>\<not> bindable f\<close>] using Cons by simp
qed

lemma Bind_invariant:
  assumes "found_by_name fs" "length slots = length fs"
  shows "\<exists>slots' m. snd (Bind ctx h (target n fs slots) L lid) = target n fs slots'
           \<and> m \<le> length fs
           \<and> (fst (Bind ctx h (target n fs slots) L lid) = BindOk \<longrightarrow> m = length fs)
           \<and> (fst (Bind ctx h (target n fs slots) L lid) \<noteq> BindOk \<longrightarrow>
                 m < length fs \<and> bindable (fs ! m))
           \<and> bound_upto fs slots 0 m slots'"
proof -
  from bind_fields_invariant[OF assms(1) assms(2), of 0 ctx h L lid]
  obtain slots' m where
    *: "snd (bind_fields ctx h L lid fs fs (Some slots)) = Some slots'" "m \<le> length fs"
       "fst (bind_fields ctx h L lid fs fs (Some slots)) = BindOk \<longrightarrow> m = length fs"
       "fst (bind_fields ctx h L lid fs fs (Some slots)) \<noteq> BindOk \<longrightarrow>
          m < length fs \<and> bindable (fs ! m)"
       "bound_upto fs slots 0 m slots'"
    by auto
  have "snd (Bind ctx h (target n fs slots) L lid) = target n fs slots'"
    using *(1) by (cases "bind_fields ctx h L lid fs fs (Some slots)") (simp add: Bind_target)
  with * show ?thesis
    unfolding Bind_target_status by blast
qed

section \<open>The directive of a field\<close>

text \<open>
  Claim C1 does not hold as stated. A field that bears both \<open>@queryOne\<close> and \<open>@exec\<close>
  is bound, as a single-row retrieval, and \<open>Bind\<close> succeeds.
\<close>

theorem two_directives_bind:
  "Tag_Get (Tag Both) ''@queryOne'' \<noteq> [] \<and> Tag_Get (Tag Both) ''@exec'' \<noteq> []
   \<and> Bind Background 3 (target ''Repo'' [Both] [NilV FindUserT]) no_loader True
     = (BindOk, target ''Repo'' [Both]
          [FuncV FindUserT
             (Closure QueryValueError FindUserT True ''select * from users where id = $1''
                Background 3 True)])"
  by (simp add: Bind_target Both_def FindUserT_def IsExported_def
        resolveQuery_def CutPrefix_def HasPrefix_def install_def runner_def)

text \<open>
  Claim C1, amended. When the loop of \<open>Bind\<close> reaches an exported function-typed
  field for which none of the three directives has a text, \<open>Bind\<close> returns the error
  whose message begins with the name of that field. A field with more than one
  directive is no error: it is bound as if it had only the first present of
  \<open>@queryOne\<close>, \<open>@query\<close> and \<open>@exec\<close>.
\<close>

theorem directive_missing_or_first_present:
  "(bindable f \<and> Tag_Get (Tag f) ''@queryOne'' = [] \<and> Tag_Get (Tag f) ''@query'' = []
      \<and> Tag_Get (Tag f) ''@exec'' = []
      \<and> fst (bind_fields ctx h L lid (pre @ f # rest) pre (Some slots)) = BindOk
    \<longrightarrow> fst (Bind ctx h (target n (pre @ f # rest) slots) L lid)
          = BindErr (ErrorString
              (Name f @ '': function is defined but does not have any queries'')))
   \<and> (bindable f \<and> Tag_Get (Tag f) ''@queryOne'' \<noteq> [] \<longrightarrow>
        bind_fields ctx h L lid flds (f # rest) v
          = bind_fields ctx h L lid flds (with_only ''@queryOne'' f # rest) v)
   \<and> (bindable f \<and> Tag_Get (Tag f) ''@queryOne'' = [] \<and> Tag_Get (Tag f) ''@query'' \<noteq> [] \<longrightarrow>
        bind_fields ctx h L lid flds (f # rest) v
          = bind_fields ctx h L lid flds (with_only ''@query'' f # rest) v)"
proof -
  have missing: "fst (Bind ctx h (target n (pre @ f # rest) slots) L lid)
          = BindErr (ErrorString
              (Name f @ '': function is defined but does not have any queries''))"
    if b: "bindable f" and none: "Tag_Get (Tag f) ''@queryOne'' = []"
      "Tag_Get (Tag f) ''@query'' = []" "Tag_Get (Tag f) ''@exec'' = []"
      and pre: "fst (bind_fields ctx h L lid (pre @ f # rest) pre (Some slots)) = BindOk"
  proof -
    have "selected_directive f = []" using none by (simp add: selected_directive_def)
    then have "fst (bind_fields ctx h L lid (pre @ f # rest) (f # rest) v)
          = BindErr (ErrorString
              (Name f @ '': function is defined but does not have any queries''))" for v
      unfolding bind_fields_step[OF b] by simp
    then show ?thesis
      unfolding Bind_target_status bind_fields_reaches[OF pre] .
  qed
  have same: "bind_fields ctx h L lid flds (f # rest) v
          = bind_fields ctx h L lid flds (with_only key f # rest) v"
    if b: "bindable f" and sel: "selected_directive f = Tag_Get (Tag f) key"
      "selected_directive (with_only key f) = Tag_Get (Tag f) key"
      "selected_isExec (with_only key f) = selected_isExec f"
      "selected_single (with_only key f) = selected_single f" for key
  proof -
    have b': "bindable (with_only key f)" using b by (simp add: bindable_def with_only_def IsExported_def)
    have inst: "install ctx h lid flds v (with_only key f) e sg script
              = install ctx h lid flds v f e sg script" for e sg script
      unfolding install_def with_only_def StructField.sel ..
    have nm: "Name (with_only key f) = Name f" by (simp add: with_only_def)
    show ?thesis
      unfolding bind_fields_step[OF b] bind_fields_step[OF b'] sel inst nm ..
  qed
  have one: "bind_fields ctx h L lid flds (f # rest) v
          = bind_fields ctx h L lid flds (with_only ''@queryOne'' f # rest) v"
    if "bindable f" "Tag_Get (Tag f) ''@queryOne'' \<noteq> []"
    using that
    by (intro same)
       (simp_all add: selected_directive_def selected_isExec_def selected_single_def with_only_def)
  have many: "bind_fields ctx h L lid flds (f # rest) v
          = bind_fields ctx h L lid flds (with_only ''@query'' f # rest) v"
    if "bindable f" "Tag_Get (Tag f) ''@queryOne'' = []" "Tag_Get (Tag f) ''@query'' \<noteq> []"
    using that
    by (intro same)
       (simp_all add: selected_directive_def selected_isExec_def selected_single_def with_only_def)
  from missing one many show ?thesis by blast
qed

theorem directive_missing_or_first_present_witness:
  "fst (Bind Background 3 (target ''Repo'' [Orphan] [NilV TouchT]) no_loader True)
     = BindErr (ErrorString ''Orphan: function is defined but does not have any queries'')"
proof -
  have b: "bindable Orphan"
    by (simp add: bindable_def Orphan_def TouchT_def IsExported_def)
  have none: "Tag_Get (Tag Orphan) ''@queryOne'' = []" "Tag_Get (Tag Orphan) ''@query'' = []"
    "Tag_Get (Tag Orphan) ''@exec'' = []"
    by (simp_all add: Orphan_def)
  have pre: "fst (bind_fields Background 3 no_loader True ([] @ Orphan # []) []
               (Some [NilV TouchT])) = BindOk"
    by simp
  have name: "Name Orphan = ''Orphan''"
    by (simp add: Orphan_def)
  show ?thesis
    using directive_missing_or_first_present
      [of Orphan Background 3 no_loader True "[]" "[]" "[NilV TouchT]" "''Repo''" "[]" None]
      b none pre
    by (simp add: name)
qed

section \<open>What a failed binding leaves behind\<close>

text \<open>
  Claim C2 does not hold as stated. On a struct whose first field binds and whose
  second field has no directive, \<open>Bind\<close> returns the error of the second field and
  leaves the closure of the first installed; that closure can be called.
\<close>

theorem failed_Bind_leaves_bound_field:
  "Bind Background 3 (target ''Repo'' [Touch, Orphan] [NilV TouchT, NilV TouchT]) no_loader True
     = (BindErr (ErrorString ''Orphan: function is defined but does not have any queries''),
        target ''Repo'' [Touch, Orphan]
          [FuncV TouchT
             (Closure ExecNone TouchT False ''insert into users(name) values ($1)''
                Background 3 True),
           NilV TouchT])
   \<and> call store
        (FuncV TouchT
           (Closure ExecNone TouchT False ''insert into users(name) values ($1)''
              Background 3 True))
        [StringV ''john''] []
     = (Returns [], [StructV UserT [Int64V 1, StringV ''john'']])"
proof -
  have b: "Bind Background 3 (target ''Repo'' [Touch, Orphan] [NilV TouchT, NilV TouchT])
             no_loader True
     = (BindErr (ErrorString ''Orphan: function is defined but does not have any queries''),
        target ''Repo'' [Touch, Orphan]
          [FuncV TouchT
             (Closure ExecNone TouchT False ''insert into users(name) values ($1)''
                Background 3 True),
           NilV TouchT])"
    by (simp add: Bind_target Touch_def Orphan_def TouchT_def IsExported_def
          resolveQuery_def CutPrefix_def HasPrefix_def install_def runner_def)
  have c: "call store
        (FuncV TouchT
           (Closure ExecNone TouchT False ''insert into users(name) values ($1)''
              Background 3 True))
        [StringV ''john''] []
     = (Returns [], [StructV UserT [Int64V 1, StringV ''john'']])"
    by (simp add: TouchT_def call_FuncV invoke_def exec_def store_def)
  from b c show ?thesis by simp
qed

text \<open>
  Claim C2, amended. On a struct value with one value per field, \<open>Bind\<close> either
  succeeds, and then every exported function-typed field holds a closure made for its
  type, or it fails at a field \<open>m\<close>, an exported function-typed one, and then the
  exported function-typed fields before \<open>m\<close> hold their closures while the field \<open>m\<close>
  and all fields after it are as they were. Fields that are not function-typed or
  not exported are as they were in both cases.
\<close>

theorem Bind_binds_all_or_a_prefix:
  assumes "found_by_name fs" and "length slots = length fs"
  shows "\<exists>slots' m. snd (Bind ctx h (target n fs slots) L lid) = target n fs slots'
           \<and> m \<le> length fs
           \<and> (fst (Bind ctx h (target n fs slots) L lid) = BindOk \<longrightarrow> m = length fs)
           \<and> (fst (Bind ctx h (target n fs slots) L lid) \<noteq> BindOk \<longrightarrow>
                 m < length fs \<and> bindable (fs ! m))
           \<and> bound_upto fs slots 0 m slots'"
  using assms by (rule Bind_invariant)

theorem Bind_binds_all_or_a_prefix_witness:
  "found_by_name [Touch, Orphan]
   \<and> (\<exists>slots' m.
         snd (Bind Background 3 (target ''Repo'' [Touch, Orphan] [NilV TouchT, NilV TouchT])
                no_loader True)
           = target ''Repo'' [Touch, Orphan] slots'
         \<and> m \<le> length [Touch, Orphan]
         \<and> bound_upto [Touch, Orphan] [NilV TouchT, NilV TouchT] 0 m slots')"
proof -
  have f: "found_by_name [Touch, Orphan]"
    by (simp add: found_by_name_def Touch_def Orphan_def)
  have l: "length [NilV TouchT, NilV TouchT] = length [Touch, Orphan]"
    by simp
  show ?thesis
    using f Bind_binds_all_or_a_prefix [OF f l, of Background 3 "''Repo''" no_loader True]
    by blast
qed

section \<open>Single-row retrievals without a row\<close>

text \<open>
  With a result type that is a pointer, a function bound with \<open>@queryOne\<close> returns
  the nil pointer and no error when the scanner reports that there is no row.
\<close>

lemma query_one_pointer_no_rows:
  assumes "runner ctx handle lid (FuncT ins outs) False True query = Inr c"
      and "outs = [PointerT t] \<or> outs = [PointerT t, ErrorT]"
      and "QueryContext w (spec_resource handle args) ctx query (spec_params args) s = (Inr rows, s')"
      and "ScanOne w (reflect_Zero t) rows = (v, Some e)"
      and "errors_Is e ErrNoRows"
  shows "call w (FuncV (FuncT ins outs) c) args s
           = (Returns (if outs = [PointerT t] then [NilV (PointerT t)]
                       else [NilV (PointerT t), NilV ErrorT]), s')"
proof -
  from assms(2) show ?thesis
  proof
    assume o: "outs = [PointerT t]"
    with assms(1) have c:
      "c = Closure QueryValue (FuncT ins [PointerT t]) True query ctx handle lid"
      by (simp add: runner_query_one)
    show ?thesis
      using assms(3,4,5)
      by (simp add: call_FuncV o c invoke_def Query_spec assignable_def)
  next
    assume o: "outs = [PointerT t, ErrorT]"
    with assms(1) have c:
      "c = Closure QueryValueError (FuncT ins [PointerT t, ErrorT]) True query ctx handle lid"
      by (simp add: runner_query_two)
    show ?thesis
      using assms(3,4,5)
      by (simp add: call_FuncV o c invoke_def Query_spec assignable_def getErrorValue_def)
  qed
qed

text \<open>
  With a result type that is not a pointer, the inner \<open>Query\<close> returns the pointer
  it scanned into, not what it points to. The check of the results of a function made
  by \<^verbatim>\<open>reflect.MakeFunc\<close> then refuses it: the call panics, whatever the scanner did.
\<close>

lemma query_one_by_value_panics:
  assumes "runner ctx handle lid (FuncT ins outs) False True query = Inr c"
      and "outs = [t] \<or> outs = [t, u]"
      and "Kind t \<noteq> reflect_Pointer" and "\<not> zero_Size t"
      and "QueryContext w (spec_resource handle args) ctx query (spec_params args) s = (Inr rows, s')"
      and "ScanRow w (reflect_Zero t) rows = (v, Some e)"
      and "errors_Is e ErrNoRows"
  shows "call w (FuncV (FuncT ins outs) c) args s = (Panics (PanicNotAssignable (PointerT t) t), s')"
proof -
  from assms(2) show ?thesis
  proof
    assume o: "outs = [t]"
    with assms(1) have c: "c = Closure QueryValue (FuncT ins [t]) True query ctx handle lid"
      by (simp add: runner_query_one)
    show ?thesis
      using assms(3-7)
      by (simp add: call_FuncV o c invoke_def Query_spec pointer_not_assignable)
  next
    assume o: "outs = [t, u]"
    with assms(1) have c: "c = Closure QueryValueError (FuncT ins [t, u]) True query ctx handle lid"
      by (simp add: runner_query_two)
    show ?thesis
      using assms(3-7)
      by (simp add: call_FuncV o c invoke_def Query_spec pointer_not_assignable)
  qed
qed

text \<open>
  Claim C3, at a function \<^verbatim>\<open>FindUser func(int64) (User, error)\<close> bound with
  \<open>@queryOne\<close> and called on a store without rows: \<open>Bind\<close> installs the closure, its
  inner \<open>Query\<close> returns a pointer to a zero \<open>User\<close> with no error, and the call
  panics because a \<^verbatim>\<open>*User\<close> is not assignable to the declared \<^verbatim>\<open>User\<close>.
  The claim asks for a zero \<open>User\<close> and a nil error.
\<close>

theorem query_one_by_value_no_rows_panics:
  "Bind Background 3 (target ''Repo'' [FindUser_by_value] [NilV FindUserValueT]) no_loader True
     = (BindOk, target ''Repo'' [FindUser_by_value]
          [FuncV FindUserValueT
             (Closure QueryValueError FindUserValueT True ''select * from users where id = $1''
                Background 3 True)])
   \<and> Query store Background 3 ''select * from users where id = $1'' [Int64V 5] True UserT []
     = (Returns (Some (PtrV UserT (StructV UserT [Int64V 0, StringV []])), None), [])
   \<and> call store
        (FuncV FindUserValueT
           (Closure QueryValueError FindUserValueT True ''select * from users where id = $1''
              Background 3 True))
        [Int64V 5] []
     = (Panics (PanicNotAssignable (PointerT UserT) UserT), [])"
proof -
  have b: "Bind Background 3 (target ''Repo'' [FindUser_by_value] [NilV FindUserValueT]) no_loader True
     = (BindOk, target ''Repo'' [FindUser_by_value]
          [FuncV FindUserValueT
             (Closure QueryValueError FindUserValueT True ''select * from users where id = $1''
                Background 3 True)])"
    by (simp add: Bind_target FindUser_by_value_def FindUserValueT_def IsExported_def
          resolveQuery_def CutPrefix_def HasPrefix_def install_def runner_def)
  have q: "Query store Background 3 ''select * from users where id = $1'' [Int64V 5] True UserT []
     = (Returns (Some (PtrV UserT (StructV UserT [Int64V 0, StringV []])), None), [])"
    by (simp add: Query_def store_def UserT_def)
  have c: "call store
        (FuncV FindUserValueT
           (Closure QueryValueError FindUserValueT True ''select * from users where id = $1''
              Background 3 True))
        [Int64V 5] []
     = (Panics (PanicNotAssignable (PointerT UserT) UserT), [])"
    by (simp add: FindUserValueT_def call_FuncV invoke_def q)
       (simp add: UserT_def assignable_def)
  from b q c show ?thesis by simp
qed

section \<open>What is checked of the declared results at bind time\<close>




section \<open>The resource override\<close>

text \<open>
  Claim C5. Every closure \<open>runner\<close> returns, on every argument list, gives the
  driver exactly one statement: the resolved query, under the context of \<open>Bind\<close>.
  When the first argument is a resource, the statement goes to that resource with the
  remaining arguments as parameters; when there is no argument or the first is not a
  resource, it goes to the default resource with all arguments as parameters.
\<close>

theorem closure_runs_on_chosen_resource:
  assumes "runner ctx handle lid typ isExec single query = Inr c"
  shows "snd (snd (invoke (logged w) c args (s, [])))
           = [(isExec, spec_resource handle args, ctx, query, spec_params args)]
       \<and> (\<forall>tx rest. args = ResV tx # rest \<longrightarrow>
             spec_resource handle args = tx \<and> spec_params args = rest)
       \<and> (args = [] \<or> as_DBResource (hd args) = None \<longrightarrow>
             spec_resource handle args = handle \<and> spec_params args = args)"
proof -
  from runner_Inr[OF assms] obtain cv where c: "c = Closure cv typ single query ctx handle lid"
    and ex: "isExec \<longleftrightarrow> cv \<in> {ExecNone, ExecError, ExecIdAffected, ExecIdAffectedError}"
    and out: "\<not> isExec \<longrightarrow> Out0 typ \<noteq> None"
    by (metis closure.sel(1))
  have log: "snd (snd (invoke (logged w) c args (s, [])))
           = [(isExec, spec_resource handle args, ctx, query, spec_params args)]"
  proof (cases isExec)
    case True
    then show ?thesis using ex c
      by (simp add: invoke_state_exec exec_state logged_Exec_log)
  next
    case False
    then obtain oType where "Out0 typ = Some oType" using out by auto
    moreover have "cv \<in> {QueryValue, QueryValueError}" using False ex by (cases cv) auto
    ultimately show ?thesis using False c
      by (simp add: invoke_state_query[where oType=oType] Query_state logged_Query_log)
  qed
  have override: "\<forall>tx rest. args = ResV tx # rest \<longrightarrow>
             spec_resource handle args = tx \<and> spec_params args = rest"
    by (simp add: spec_resource_def spec_params_def)
  have default: "args = [] \<or> as_DBResource (hd args) = None \<longrightarrow>
             spec_resource handle args = handle \<and> spec_params args = args"
    by (cases args) (auto simp: spec_resource_def spec_params_def)
  from log override default show ?thesis by blast
qed

theorem closure_runs_on_chosen_resource_witness:
  "snd (snd (invoke (logged store)
        (Closure ExecError (FuncT [HandleT, StringT] [ErrorT]) False ''insert'' Background 1 True)
        [ResV 7, StringV ''john''] ([], [])))
     = [(True, 7, Background, ''insert'', [StringV ''john''])]"
proof -
  have r: "runner Background 1 True (FuncT [HandleT, StringT] [ErrorT]) True False ''insert''
             = Inr (Closure ExecError (FuncT [HandleT, StringT] [ErrorT]) False ''insert''
                      Background 1 True)"
    by (simp add: runner_def)
  show ?thesis
    using closure_runs_on_chosen_resource [OF r, of store "[ResV 7, StringV ''john'']" "[]"]
    by (simp add: spec_resource_def spec_params_def)
qed

section \<open>Executions\<close>

text \<open>
  Claim C6 does not hold as stated. With \<open>lastInsertIDSupport\<close> set, on a driver
  whose result cannot tell the identifier, the statement executes without error and
  the result would answer an affected-row count of 1; \<open>exec\<close> returns at the failed
  identifier, so the count is never read, and the call reports 0 for it with the
  error.
\<close>

theorem failed_identifier_skips_affected_count:
  "ExecContext store_without_identifier 3 Background ''insert into users(name) values ($1)''
     [StringV ''john''] []
     = (Inr \<lparr>LastInsertId = Inl (ErrorString ''LastInsertId is not supported by this driver''),
              RowsAffected = Inr 1\<rparr>,
        [StructV UserT [Int64V 1, StringV ''john'']])
   \<and> exec store_without_identifier Background 3 True ''insert into users(name) values ($1)''
       [StringV ''john''] []
     = ((0, 0, Some (ErrorString ''LastInsertId is not supported by this driver'')),
        [StructV UserT [Int64V 1, StringV ''john'']])
   \<and> call store_without_identifier
        (FuncV AddUserT
           (Closure ExecIdAffectedError AddUserT False ''insert into users(name) values ($1)''
              Background 3 True))
        [StringV ''john''] []
     = (Returns [Int64V 0, Int64V 0,
                 ErrV (ErrorString ''LastInsertId is not supported by this driver'')],
        [StructV UserT [Int64V 1, StringV ''john'']])"
proof -
  have x: "ExecContext store_without_identifier 3 Background
       ''insert into users(name) values ($1)'' [StringV ''john''] []
     = (Inr \<lparr>LastInsertId = Inl (ErrorString ''LastInsertId is not supported by this driver''),
              RowsAffected = Inr 1\<rparr>,
        [StructV UserT [Int64V 1, StringV ''john'']])"
    by (simp add: store_without_identifier_def)
  have e: "exec store_without_identifier Background 3 True
       ''insert into users(name) values ($1)'' [StringV ''john''] []
     = ((0, 0, Some (ErrorString ''LastInsertId is not supported by this driver'')),
        [StructV UserT [Int64V 1, StringV ''john'']])"
    by (simp add: exec_def store_without_identifier_def)
  have c: "call store_without_identifier
        (FuncV AddUserT
           (Closure ExecIdAffectedError AddUserT False ''insert into users(name) values ($1)''
              Background 3 True))
        [StringV ''john''] []
     = (Returns [Int64V 0, Int64V 0,
                 ErrV (ErrorString ''LastInsertId is not supported by this driver'')],
        [StructV UserT [Int64V 1, StringV ''john'']])"
    by (simp add: AddUserT_def call_FuncV invoke_def e getErrorValue_def assignable_def)
  from x e c show ?thesis by simp
qed

text \<open>
  Claim C6, amended. Let the statement of an Exec-bound call execute without a
  database error. Without \<open>lastInsertIDSupport\<close> the identifier is not asked for:
  it is 0 and no error comes from it, and the affected-row count is read. With
  \<open>lastInsertIDSupport\<close> the identifier is read first; when that fails the call ends
  with that error and the count is not read; otherwise the count is read. When
  reading the count fails the call ends with that error. A call that ends with an
  error has 0 for identifier and count. The function of each of the four Exec
  conventions gives its caller just this outcome: nothing or a panic with the error;
  the error; identifier and count or a panic with the error; identifier, count and
  the error.
\<close>

theorem exec_identifier_then_affected_count:
  assumes "runner ctx handle lid (FuncT ins outs) True single query = Inr c"
      and "ExecContext w (spec_resource handle args) ctx query (spec_params args) s
             = (Inr result, s')"
  shows "(\<not> lid \<longrightarrow>
            (\<forall>a. RowsAffected result = Inr a \<longrightarrow>
               exec w ctx handle lid query args s = ((0, a, None), s'))
          \<and> (\<forall>e. RowsAffected result = Inl e \<longrightarrow>
               exec w ctx handle lid query args s = ((0, 0, Some e), s')))
       \<and> (lid \<longrightarrow>
            (\<forall>e. LastInsertId result = Inl e \<longrightarrow>
               exec w ctx handle lid query args s = ((0, 0, Some e), s'))
          \<and> (\<forall>i a. LastInsertId result = Inr i \<and> RowsAffected result = Inr a \<longrightarrow>
               exec w ctx handle lid query args s = ((i, a, None), s'))
          \<and> (\<forall>i e. LastInsertId result = Inr i \<and> RowsAffected result = Inl e \<longrightarrow>
               exec w ctx handle lid query args s = ((0, 0, Some e), s')))
       \<and> (\<forall>i a err. exec w ctx handle lid query args s = ((i, a, err), s') \<longrightarrow>
            (outs = [] \<longrightarrow>
               call w (FuncV (FuncT ins outs) c) args s
                 = ((case err of None \<Rightarrow> Returns [] | Some e \<Rightarrow> Panics (PanicError e)), s'))
          \<and> (outs = [ErrorT] \<longrightarrow>
               call w (FuncV (FuncT ins outs) c) args s
                 = (Returns [getErrorValue err], s'))
          \<and> (outs = [Int64T, Int64T] \<longrightarrow>
               call w (FuncV (FuncT ins outs) c) args s
                 = ((case err of
                       None \<Rightarrow> Returns [Int64V i, Int64V a]
                     | Some e \<Rightarrow> Panics (PanicError e)), s'))
          \<and> (outs = [Int64T, Int64T, ErrorT] \<longrightarrow>
               call w (FuncV (FuncT ins outs) c) args s
                 = (Returns [Int64V i, Int64V a, getErrorValue err], s')))"
proof -
  have off: "exec w ctx handle lid query args s = ((0, a, None), s')"
    if "\<not> lid" "RowsAffected result = Inr a" for a
    using that assms(2) by (simp add: exec_spec)
  have off_err: "exec w ctx handle lid query args s = ((0, 0, Some e), s')"
    if "\<not> lid" "RowsAffected result = Inl e" for e
    using that assms(2) by (simp add: exec_spec)
  have on_fail: "exec w ctx handle lid query args s = ((0, 0, Some e), s')"
    if "lid" "LastInsertId result = Inl e" for e
    using that assms(2) by (simp add: exec_spec)
  have on: "exec w ctx handle lid query args s = ((i, a, None), s')"
    if "lid" "LastInsertId result = Inr i" "RowsAffected result = Inr a" for i a
    using that assms(2) by (simp add: exec_spec)
  have on_err: "exec w ctx handle lid query args s = ((0, 0, Some e), s')"
    if "lid" "LastInsertId result = Inr i" "RowsAffected result = Inl e" for i e
    using that assms(2) by (simp add: exec_spec)
  have none: "call w (FuncV (FuncT ins outs) c) args s
                 = ((case err of None \<Rightarrow> Returns [] | Some e \<Rightarrow> Panics (PanicError e)), s')"
    if "exec w ctx handle lid query args s = ((i, a, err), s')" "outs = []" for i a err
    using that assms(1)
    by (cases err) (auto simp: runner_exec call_FuncV invoke_def)
  have err: "call w (FuncV (FuncT ins outs) c) args s = (Returns [getErrorValue err], s')"
    if "exec w ctx handle lid query args s = ((i, a, err), s')" "outs = [ErrorT]" for i a err
    using that assms(1)
    by (cases err) (auto simp: runner_exec call_FuncV invoke_def getErrorValue_def assignable_def)
  have two: "call w (FuncV (FuncT ins outs) c) args s
                 = ((case err of
                       None \<Rightarrow> Returns [Int64V i, Int64V a]
                     | Some e \<Rightarrow> Panics (PanicError e)), s')"
    if "exec w ctx handle lid query args s = ((i, a, err), s')" "outs = [Int64T, Int64T]"
    for i a err
    using that assms(1)
    by (cases err) (auto simp: runner_exec call_FuncV invoke_def assignable_def)
  have three: "call w (FuncV (FuncT ins outs) c) args s
                 = (Returns [Int64V i, Int64V a, getErrorValue err], s')"
    if "exec w ctx handle lid query args s = ((i, a, err), s')" "outs = [Int64T, Int64T, ErrorT]"
    for i a err
    using that assms(1)
    by (cases err) (auto simp: runner_exec call_FuncV invoke_def getErrorValue_def assignable_def)
  from off off_err on_fail on on_err none err two three show ?thesis by blast
qed

theorem exec_identifier_then_affected_count_witness:
  "call store
     (FuncV AddUserPanicT
        (Closure ExecIdAffected AddUserPanicT False ''insert into users(name) values ($1)''
           Background 3 True))
     [StringV ''john''] [StructV UserT [Int64V 1, StringV ''jane'']]
     = (Returns [Int64V 2, Int64V 1],
        [StructV UserT [Int64V 1, StringV ''jane''], StructV UserT [Int64V 2, StringV ''john'']])"
proof -
  have r: "runner Background 3 True (FuncT [StringT] [Int64T, Int64T]) True False
             ''insert into users(name) values ($1)''
             = Inr (Closure ExecIdAffected AddUserPanicT False
                      ''insert into users(name) values ($1)'' Background 3 True)"
    by (simp add: runner_def AddUserPanicT_def)
  have x: "ExecContext store (spec_resource 3 [StringV ''john'']) Background
             ''insert into users(name) values ($1)'' (spec_params [StringV ''john''])
             [StructV UserT [Int64V 1, StringV ''jane'']]
           = (Inr \<lparr>LastInsertId = Inr 2, RowsAffected = Inr 1\<rparr>,
              [StructV UserT [Int64V 1, StringV ''jane''],
               StructV UserT [Int64V 2, StringV ''john'']])"
    by (simp add: store_def spec_resource_def spec_params_def)
  note t = exec_identifier_then_affected_count [OF r x]
  have e: "exec store Background 3 True ''insert into users(name) values ($1)''
             [StringV ''john''] [StructV UserT [Int64V 1, StringV ''jane'']]
           = ((2, 1, None),
              [StructV UserT [Int64V 1, StringV ''jane''],
               StructV UserT [Int64V 2, StringV ''john'']])"
    using t by simp
  show ?thesis
    using t e by (simp add: AddUserPanicT_def)
qed

section \<open>Errors of the driver under the six conventions\<close>

text \<open>
  Claim C7 does not hold as stated. The context is handed to the driver; when it is
  cancelled the driver answers with an error, and the closure of a function without
  results panics with that error.
\<close>

theorem cancelled_exec_without_results_panics:
  "Bind (WithCancel 0) 3 (target ''Repo'' [Touch] [NilV TouchT]) no_loader True
     = (BindOk, target ''Repo'' [Touch]
          [FuncV TouchT
             (Closure ExecNone TouchT False ''insert into users(name) values ($1)''
                (WithCancel 0) 3 True)])
   \<and> ExecContext store 3 (WithCancel 0) ''insert into users(name) values ($1)''
        [StringV ''john''] []
     = (Inl ContextCanceled, [])
   \<and> call store
        (FuncV TouchT
           (Closure ExecNone TouchT False ''insert into users(name) values ($1)''
              (WithCancel 0) 3 True))
        [StringV ''john''] []
     = (Panics (PanicError ContextCanceled), [])"
proof -
  have b: "Bind (WithCancel 0) 3 (target ''Repo'' [Touch] [NilV TouchT]) no_loader True
     = (BindOk, target ''Repo'' [Touch]
          [FuncV TouchT
             (Closure ExecNone TouchT False ''insert into users(name) values ($1)''
                (WithCancel 0) 3 True)])"
    by (simp add: Bind_target Touch_def TouchT_def IsExported_def
          resolveQuery_def CutPrefix_def HasPrefix_def install_def runner_def)
  have e: "ExecContext store 3 (WithCancel 0) ''insert into users(name) values ($1)''
        [StringV ''john''] []
     = (Inl ContextCanceled, [])"
    by (simp add: store_def)
  have c: "call store
        (FuncV TouchT
           (Closure ExecNone TouchT False ''insert into users(name) values ($1)''
              (WithCancel 0) 3 True))
        [StringV ''john''] []
     = (Panics (PanicError ContextCanceled), [])"
    by (simp add: TouchT_def call_FuncV invoke_def exec_def store_def)
  from b e c show ?thesis by simp
qed

text \<open>
  Claim C7, amended. An error the driver returns for the statement, as it does when
  the context is cancelled, is treated by the closure like every other execution
  error, according to the convention of the bound function: the conventions with an
  error result return it as that result (with zero for the other results), the
  conventions without an error result panic with it.
\<close>

theorem driver_error_by_convention:
  assumes "runner ctx handle lid (FuncT ins outs) isExec single query = Inr c"
      and "isExec \<longrightarrow> ExecContext w (spec_resource handle args) ctx query (spec_params args) s
                        = (Inl e, s')"
      and "\<not> isExec \<longrightarrow> QueryContext w (spec_resource handle args) ctx query (spec_params args) s
                        = (Inl e, s')"
  shows "(isExec \<and> outs = [] \<longrightarrow>
            call w (FuncV (FuncT ins outs) c) args s = (Panics (PanicError e), s'))
       \<and> (isExec \<and> outs = [ErrorT] \<longrightarrow>
            call w (FuncV (FuncT ins outs) c) args s = (Returns [ErrV e], s'))
       \<and> (isExec \<and> outs = [Int64T, Int64T] \<longrightarrow>
            call w (FuncV (FuncT ins outs) c) args s = (Panics (PanicError e), s'))
       \<and> (isExec \<and> outs = [Int64T, Int64T, ErrorT] \<longrightarrow>
            call w (FuncV (FuncT ins outs) c) args s
              = (Returns [Int64V 0, Int64V 0, ErrV e], s'))
       \<and> (\<forall>t. \<not> isExec \<and> outs = [t] \<longrightarrow>
            call w (FuncV (FuncT ins outs) c) args s = (Panics (PanicError e), s'))
       \<and> (\<forall>t. \<not> isExec \<and> outs = [t, ErrorT] \<longrightarrow>
            call w (FuncV (FuncT ins outs) c) args s
              = (Returns [reflect_Zero t, ErrV e], s'))"
proof -
  have none: "call w (FuncV (FuncT ins outs) c) args s = (Panics (PanicError e), s')"
    if "isExec" "outs = []"
    using that assms by (auto simp: runner_exec call_FuncV invoke_def exec_spec)
  have err: "call w (FuncV (FuncT ins outs) c) args s = (Returns [ErrV e], s')"
    if "isExec" "outs = [ErrorT]"
    using that assms
    by (auto simp: runner_exec call_FuncV invoke_def exec_spec getErrorValue_def assignable_def)
  have two: "call w (FuncV (FuncT ins outs) c) args s = (Panics (PanicError e), s')"
    if "isExec" "outs = [Int64T, Int64T]"
    using that assms by (auto simp: runner_exec call_FuncV invoke_def exec_spec)
  have three: "call w (FuncV (FuncT ins outs) c) args s
              = (Returns [Int64V 0, Int64V 0, ErrV e], s')"
    if "isExec" "outs = [Int64T, Int64T, ErrorT]"
    using that assms
    by (auto simp: runner_exec call_FuncV invoke_def exec_spec getErrorValue_def assignable_def)
  have val: "call w (FuncV (FuncT ins outs) c) args s = (Panics (PanicError e), s')"
    if "\<not> isExec" "outs = [t]" for t
    using that assms by (auto simp: runner_query_one call_FuncV invoke_def Query_spec)
  have valerr: "call w (FuncV (FuncT ins outs) c) args s
              = (Returns [reflect_Zero t, ErrV e], s')"
    if "\<not> isExec" "outs = [t, ErrorT]" for t
    using that assms
    by (auto simp: runner_query_two call_FuncV invoke_def Query_spec getErrorValue_def
          assignable_def TypeOf_reflect_Zero)
  from none err two three val valerr show ?thesis by blast
qed

theorem driver_error_by_convention_witness:
  "call store
     (FuncV (FuncT [StringT] [ErrorT])
        (Closure ExecError (FuncT [StringT] [ErrorT]) False ''insert'' (WithCancel 0) 3 True))
     [StringV ''john''] []
     = (Returns [ErrV ContextCanceled], [])"
proof -
  have r: "runner (WithCancel 0) 3 True (FuncT [StringT] [ErrorT]) True False ''insert''
             = Inr (Closure ExecError (FuncT [StringT] [ErrorT]) False ''insert''
                      (WithCancel 0) 3 True)"
    by (simp add: runner_def)
  have e: "True \<longrightarrow> ExecContext store (spec_resource 3 [StringV ''john'']) (WithCancel 0) ''insert''
             (spec_params [StringV ''john'']) [] = (Inl ContextCanceled, [])"
    by (simp add: store_def)
  have q: "\<not> True \<longrightarrow> QueryContext store (spec_resource 3 [StringV ''john'']) (WithCancel 0)
             ''insert'' (spec_params [StringV ''john'']) [] = (Inl ContextCanceled, [])"
    by simp
  show ?thesis
    using driver_error_by_convention [OF r e q] by simp
qed

section \<open>Resolving the query text\<close>

text \<open>
  Claim C8. A directive text that begins with \<open>file:\<close> is resolved through the
  loader: the prefix is removed, \<open>.sql\<close> is appended unless the name already ends
  with it, and \<open>Get\<close> is asked for that name; what \<open>Get\<close> returns is the query, and
  when \<open>Get\<close> fails the error joins a message that begins with the field's name with
  the loader's error. A text without the prefix is the query as it is. When the loop
  of \<open>Bind\<close> reaches a field whose directive is such a reference and the loader fails,
  \<open>Bind\<close> returns that error.
\<close>

theorem resolveQuery_external_reference:
  "resolveQuery L (''file:'' @ name) fn =
     (case L (if HasSuffix name ''.sql'' then name else name @ ''.sql'') of
        Inl e \<Rightarrow> Inl (JoinError (ErrorString (fn @ '': failed to load file '' @ ''file:'' @ name)) e)
      | Inr t \<Rightarrow> Inr t)
   \<and> (HasSuffix name ''.sql'' \<longleftrightarrow> (\<exists>p. name = p @ ''.sql''))
   \<and> (\<not> (\<exists>r. q = ''file:'' @ r) \<longrightarrow> resolveQuery L q fn = Inr q)
   \<and> (bindable f \<and> selected_directive f = ''file:'' @ name
        \<and> L (if HasSuffix name ''.sql'' then name else name @ ''.sql'') = Inl e
        \<and> fst (bind_fields ctx h L lid (pre @ f # rest) pre (Some slots)) = BindOk
      \<longrightarrow> fst (Bind ctx h (target n (pre @ f # rest) slots) L lid)
            = BindErr (JoinError
                (ErrorString (Name f @ '': failed to load file '' @ ''file:'' @ name)) e)
          \<and> errors_Is (JoinError
                (ErrorString (Name f @ '': failed to load file '' @ ''file:'' @ name)) e) e)"
proof -
  have literal: "\<not> (\<exists>r. q = ''file:'' @ r) \<longrightarrow> resolveQuery L q fn = Inr q"
    using resolveQuery_literal[of q L fn] HasPrefix_iff[of q "''file:''"] by blast
  have bound: "fst (Bind ctx h (target n (pre @ f # rest) slots) L lid)
            = BindErr (JoinError
                (ErrorString (Name f @ '': failed to load file '' @ ''file:'' @ name)) e)"
    if b: "bindable f" and sel: "selected_directive f = ''file:'' @ name"
      and fail: "L (if HasSuffix name ''.sql'' then name else name @ ''.sql'') = Inl e"
      and pre: "fst (bind_fields ctx h L lid (pre @ f # rest) pre (Some slots)) = BindOk"
  proof -
    have "resolveQuery L (selected_directive f) (Name f)
            = Inl (JoinError
                (ErrorString (Name f @ '': failed to load file '' @ ''file:'' @ name)) e)"
      unfolding sel resolveQuery_file using fail by simp
    moreover have "selected_directive f \<noteq> []" unfolding sel by simp
    ultimately have "fst (bind_fields ctx h L lid (pre @ f # rest) (f # rest) v)
            = BindErr (JoinError
                (ErrorString (Name f @ '': failed to load file '' @ ''file:'' @ name)) e)" for v
      unfolding bind_fields_step[OF b] by simp
    then show ?thesis
      unfolding Bind_target_status bind_fields_reaches[OF pre] .
  qed
  have wraps: "errors_Is (JoinError
                (ErrorString (Name f @ '': failed to load file '' @ ''file:'' @ name)) e) e"
    by (cases e) simp_all
  from resolveQuery_file[of L name fn] HasSuffix_iff[of name "''.sql''"] literal bound wraps
  show ?thesis by blast
qed

theorem resolveQuery_external_reference_witness:
  "fst (Bind Background 1 (target ''Repo'' [FindUser_from_file] [NilV FindUserT])
          (fsQueryLoader_Get slash_Join empty_dir) True)
     = BindErr (JoinError (ErrorString ''FindUser: failed to load file file:find_user'')
                  (ErrorString ''open test/find_user.sql: file does not exist''))"
proof -
  have b: "bindable FindUser_from_file"
    by (simp add: bindable_def FindUser_from_file_def FindUserT_def IsExported_def)
  have sel: "selected_directive FindUser_from_file = ''file:'' @ ''find_user''"
    by (simp add: selected_directive_def FindUser_from_file_def)
  have fail: "fsQueryLoader_Get slash_Join empty_dir
               (if HasSuffix ''find_user'' ''.sql'' then ''find_user'' else ''find_user'' @ ''.sql'')
             = Inl (ErrorString ''open test/find_user.sql: file does not exist'')"
    by (simp add: fsQueryLoader_Get_def slash_Join_def empty_dir_def HasSuffix_def)
  have pre: "fst (bind_fields Background 1 (fsQueryLoader_Get slash_Join empty_dir) True
                ([] @ FindUser_from_file # []) [] (Some [NilV FindUserT])) = BindOk"
    by simp
  have name: "Name FindUser_from_file = ''FindUser''"
    by (simp add: FindUser_from_file_def)
  show ?thesis
    using resolveQuery_external_reference
      [of "fsQueryLoader_Get slash_Join empty_dir" "''find_user''" "''fn''" "''select 1''"
          FindUser_from_file "ErrorString ''open test/find_user.sql: file does not exist''"
          Background 1 True "[]" "[]" "[NilV FindUserT]" "''Repo''"]
      b sel fail pre
    by (simp add: name)
qed

section \<open>Retrievals without rows\<close>

text \<open>
  Claim C9. A function bound with \<open>@query\<close> whose result type is a slice, called
  when the query gives a cursor from which the scanner scans no row (it leaves the
  empty destination as it is and reports no error), returns a slice of length zero
  of the declared type that is not the nil slice, in both retrieval conventions.
\<close>

theorem query_many_empty_slice:
  assumes "runner ctx handle lid (FuncT ins outs) False False query = Inr c"
      and "outs = [SliceT elem] \<or> outs = [SliceT elem, ErrorT]"
      and "QueryContext w (spec_resource handle args) ctx query (spec_params args) s = (Inr rows, s')"
      and "ScanAll w (SliceV elem []) rows = (SliceV elem [], None)"
  shows "call w (FuncV (FuncT ins outs) c) args s
           = (Returns (if outs = [SliceT elem] then [SliceV elem []]
                       else [SliceV elem [], NilV ErrorT]), s')
       \<and> SliceV elem [] \<noteq> reflect_Zero (SliceT elem)"
proof -
  from assms(2) show ?thesis
  proof
    assume o: "outs = [SliceT elem]"
    with assms(1) have c:
      "c = Closure QueryValue (FuncT ins [SliceT elem]) False query ctx handle lid"
      by (simp add: runner_query_one)
    show ?thesis
      using assms(3,4)
      by (simp add: call_FuncV o c invoke_def Query_spec assignable_def)
  next
    assume o: "outs = [SliceT elem, ErrorT]"
    with assms(1) have c:
      "c = Closure QueryValueError (FuncT ins [SliceT elem, ErrorT]) False query ctx handle lid"
      by (simp add: runner_query_two)
    show ?thesis
      using assms(3,4)
      by (simp add: call_FuncV o c invoke_def Query_spec assignable_def getErrorValue_def)
  qed
qed

theorem query_many_empty_slice_witness:
  "call store (FuncV (FuncT [] [SliceT UserT])
       (Closure QueryValue (FuncT [] [SliceT UserT]) False ''select * from users'' Background 1 True))
     [] [] = (Returns [SliceV UserT []], [])"
proof -
  have r: "runner Background 1 True (FuncT [] [SliceT UserT]) False False ''select * from users''
             = Inr (Closure QueryValue (FuncT [] [SliceT UserT]) False ''select * from users''
                      Background 1 True)"
    by (simp add: runner_def)
  have o: "[SliceT UserT] = [SliceT UserT] \<or> [SliceT UserT] = [SliceT UserT, ErrorT]"
    by simp
  have q: "QueryContext store (spec_resource 1 []) Background ''select * from users''
             (spec_params []) [] = (Inr [], [])"
    by (simp add: store_def spec_resource_def spec_params_def)
  have sc: "ScanAll store (SliceV UserT []) [] = (SliceV UserT [], None)"
    by (simp add: store_def)
  show ?thesis
    using query_many_empty_slice [OF r o q sc] by simp
qed

section \<open>Fields the binder does not touch\<close>

text \<open>
  Claim C10. \<open>Bind\<close> leaves every field that is not function-typed or not exported
  as it was, however binding ends, and asks no directive of such a field: a struct
  with only such fields binds successfully and is unchanged.
\<close>

theorem Bind_leaves_other_fields:
  assumes "found_by_name fs" and "length slots = length fs"
  shows "(\<exists>slots'. snd (Bind ctx h (target n fs slots) L lid) = target n fs slots'
            \<and> length slots' = length slots
            \<and> (\<forall>i<length fs. \<not> bindable (fs ! i) \<longrightarrow> slots' ! i = slots ! i))
       \<and> ((\<forall>f\<in>set fs. \<not> bindable f) \<longrightarrow>
             Bind ctx h (target n fs slots) L lid = (BindOk, target n fs slots))"
proof -
  from Bind_invariant[OF assms, of ctx h n L lid] obtain slots' m where
    *: "snd (Bind ctx h (target n fs slots) L lid) = target n fs slots'"
       "bound_upto fs slots 0 m slots'"
    by blast
  have "length slots' = length slots
      \<and> (\<forall>i<length fs. \<not> bindable (fs ! i) \<longrightarrow> slots' ! i = slots ! i)"
    using *(2) assms(2) unfolding bound_upto_def by auto
  with *(1) have first: "\<exists>slots'. snd (Bind ctx h (target n fs slots) L lid) = target n fs slots'
            \<and> length slots' = length slots
            \<and> (\<forall>i<length fs. \<not> bindable (fs ! i) \<longrightarrow> slots' ! i = slots ! i)"
    by blast
  have second: "(\<forall>f\<in>set fs. \<not> bindable f) \<longrightarrow>
             Bind ctx h (target n fs slots) L lid = (BindOk, target n fs slots)"
    by (simp add: Bind_target bind_fields_none_bindable)
  from first second show ?thesis by blast
qed

theorem Bind_leaves_other_fields_witness:
  "Bind Background 3 (target ''Repo'' [helper, Count] [NilV TouchT, Int64V 7]) no_loader True
     = (BindOk, target ''Repo'' [helper, Count] [NilV TouchT, Int64V 7])"
proof -
  have f: "found_by_name [helper, Count]"
    by (simp add: found_by_name_def bindable_def helper_def Count_def IsExported_def)
  have l: "length [NilV TouchT, Int64V 7] = length [helper, Count]"
    by simp
  have nb: "\<forall>f\<in>set [helper, Count]. \<not> bindable f"
    by (simp add: bindable_def helper_def Count_def IsExported_def)
  show ?thesis
    using Bind_leaves_other_fields [OF f l, of Background 3 "''Repo''" no_loader True] nb
    by blast
qed

end
